theory Spec2Isabelle
  imports Main "HOL-Library.Log_Nat" "HOL-Library.Word"
begin

section \<open>The local sqlite3 client of libsql-client-ts (src/sqlite3.ts)\<close>

text \<open>
  The development embeds the value codec (\<open>valueFromSql\<close>, \<open>valueToSql\<close>), the
  statement executor (\<open>executeStmt\<close>, \<open>executeMultiple\<close>, \<open>mapSqliteError\<close>), the
  client (\<open>Sqlite3Client\<close>) and the transaction (\<open>Sqlite3Transaction\<close>) of
  \<^verbatim>\<open>src/sqlite3.ts\<close>. The storage engine (the \<^verbatim>\<open>libsql\<close> package) is an external
  collaborator: it is a parameter of the model, a record of functions over an abstract
  engine state, and every call the code makes on it is written to a trace.
\<close>

subsection \<open>JavaScript values\<close>

text \<open>
  A JavaScript number is an IEEE double: a finite value (kept as the rational it
  denotes; the sign of zero is not modelled), one of the two infinities, or NaN.
\<close>

datatype js_number = NumFinite rat | NumPosInfinity | NumNegInfinity | NumNaN

type_synonym bytes = "8 word list"

text \<open>
  The values the code inspects with \<^verbatim>\<open>typeof\<close> and \<^verbatim>\<open>instanceof\<close>. A bigint is an
  unbounded integer. A \<^verbatim>\<open>Date\<close> carries its time value, the number \<^verbatim>\<open>valueOf()\<close>
  returns (milliseconds since the epoch, or NaN for an invalid date). An \<^verbatim>\<open>ArrayBuffer\<close>
  and a node \<^verbatim>\<open>Buffer\<close> carry their bytes; object identity is not modelled. A symbol
  (with its description) stands for the values that are of no SQL type: the code
  passes them on to the engine as they are.
\<close>

datatype js_value =
    JSUndefined
  | JSNull
  | JSBoolean bool
  | JSNumber js_number
  | JSBigInt int
  | JSString string
  | JSArrayBuffer bytes
  | JSBuffer bytes
  | JSDate js_number
  | JSSymbol string

text \<open>
  What the code throws. \<^verbatim>\<open>SqliteError\<close> is the engine's error class, with its
  \<^verbatim>\<open>message\<close> and \<^verbatim>\<open>code\<close>. \<^verbatim>\<open>LibsqlError\<close> is the client's class (api.js): a value
  \<open>LibsqlError m c cause\<close> is the error \<^verbatim>\<open>new LibsqlError(m, c, cause)\<close>, kept as the three
  arguments of the constructor. The text of the \<^verbatim>\<open>message\<close> property that the constructor
  makes of \<open>m\<close> and \<open>c\<close> is not modelled.
\<close>

datatype js_error =
    RangeError string
  | TypeError string
  | Error string
  | SqliteError string string
  | LibsqlError string string "js_error option"

text \<open>
  \<^verbatim>\<open>IntMode\<close> is the type \<^verbatim>\<open>"number" | "bigint" | "string"\<close>; the code has a branch for any
  other value, which \<open>IntModeInvalid\<close> stands for.
\<close>

datatype IntMode = IntModeNumber | IntModeBigint | IntModeString | IntModeInvalid

subsection \<open>Built-in conversions\<close>

definition Number_isFinite :: "js_number \<Rightarrow> bool" where
  "Number_isFinite x = (case x of NumFinite _ \<Rightarrow> True | _ \<Rightarrow> False)"

text \<open>
  \<^verbatim>\<open>Number(v)\<close> for a bigint \<open>v\<close>: the double nearest to \<open>v\<close>, ties to the even
  significand, infinite from \<open>2 ^ 1024\<close> on. A double has 53 significant bits, so with
  \<open>e = bitlen \<bar>v\<bar> - 53\<close> excess bits the value is rounded to a multiple of \<open>2 ^ e\<close>.
\<close>

definition Number_of_bigint :: "int \<Rightarrow> js_number" where
  "Number_of_bigint v =
     (let a = \<bar>v\<bar>; e = bitlen a - 53 in
      if e \<le> 0 then NumFinite (of_int v)
      else
        let p = 2 ^ nat e;
            q = a div p;
            r = a mod p;
            m = (if 2 * r > p \<or> (2 * r = p \<and> odd q) then q + 1 else q)
        in if m * p \<ge> 2 ^ 1024 then (if v < 0 then NumNegInfinity else NumPosInfinity)
           else NumFinite (of_int (sgn v * m * p)))"

text \<open>The decimal digit of \<open>d\<close>; it is applied to numbers below ten only.\<close>

definition digit_char :: "nat \<Rightarrow> char" where
  "digit_char d = ''0123456789'' ! (d mod 10)"

function digits_of_nat :: "nat \<Rightarrow> string" where
  "digits_of_nat n =
     (if n < 10 then [digit_char n]
      else digits_of_nat (n div 10) @ [digit_char (n mod 10)])"
  by pat_completeness auto
termination
  by (relation "measure id") auto

declare digits_of_nat.simps [simp del]

text \<open>\<^verbatim>\<open>"" + v\<close> for a bigint \<open>v\<close>: its decimal digits, with a minus sign when negative.\<close>

definition String_of_bigint :: "int \<Rightarrow> string" where
  "String_of_bigint v =
     (if v < 0 then CHR ''-'' # digits_of_nat (nat (- v)) else digits_of_nat (nat v))"

text \<open>
  \<^verbatim>\<open>BigInt(x)\<close> as the executor applies it to the engine's \<^verbatim>\<open>lastInsertRowid\<close>, which
  the engine declares as \<^verbatim>\<open>number | bigint\<close>: a bigint is returned as it is, an integral
  number converts exactly, any other number throws a RangeError.
\<close>

datatype rowid = RowidBigInt int | RowidNumber js_number

definition BigInt_of_rowid :: "rowid \<Rightarrow> js_error + int" where
  "BigInt_of_rowid x =
     (case x of
        RowidBigInt i \<Rightarrow> Inr i
      | RowidNumber (NumFinite q) \<Rightarrow>
          (if of_int \<lfloor>q\<rfloor> = q then Inr \<lfloor>q\<rfloor>
           else Inl (RangeError ''The number cannot be converted to a BigInt because it is not an integer''))
      | RowidNumber _ \<Rightarrow>
          Inl (RangeError ''The number cannot be converted to a BigInt because it is not an integer''))"

subsection \<open>ValueCodec: \<open>valueFromSql\<close> and \<open>valueToSql\<close>\<close>

definition minSafeBigint :: int where
  "minSafeBigint = - 9007199254740991"

definition maxSafeBigint :: int where
  "maxSafeBigint = 9007199254740991"

definition minInteger :: int where
  "minInteger = - 9223372036854775808"

definition maxInteger :: int where
  "maxInteger = 9223372036854775807"

text \<open>
  \<open>valueFromSql\<close>, lines 265 to 285. \<^verbatim>\<open>sqlValue.buffer\<close> of a \<^verbatim>\<open>Buffer\<close> is taken to be
  an \<^verbatim>\<open>ArrayBuffer\<close> of the same bytes.
\<close>

definition valueFromSql :: "js_value \<Rightarrow> IntMode \<Rightarrow> js_error + js_value" where
  "valueFromSql sqlValue intMode =
     (case sqlValue of
        JSBigInt v \<Rightarrow>
          (case intMode of
             IntModeNumber \<Rightarrow>
               (if v < minSafeBigint \<or> v > maxSafeBigint
                then Inl (RangeError
                  ''Received integer which cannot be safely represented as a JavaScript number'')
                else Inr (JSNumber (Number_of_bigint v)))
           | IntModeBigint \<Rightarrow> Inr (JSBigInt v)
           | IntModeString \<Rightarrow> Inr (JSString (String_of_bigint v))
           | IntModeInvalid \<Rightarrow> Inl (Error ''Invalid value for IntMode''))
      | JSBuffer b \<Rightarrow> Inr (JSArrayBuffer b)
      | _ \<Rightarrow> Inr sqlValue)"

text \<open>\<open>valueToSql\<close>, lines 290 to 314; the branches in the source's order.\<close>

definition valueToSql :: "js_value \<Rightarrow> js_error + js_value" where
  "valueToSql v =
     (case v of
        JSNumber x \<Rightarrow>
          (if \<not> Number_isFinite x
           then Inl (RangeError
             ''Only finite numbers (not Infinity or NaN) can be passed as arguments'')
           else Inr (JSNumber x))
      | JSBigInt i \<Rightarrow>
          (if i < minInteger \<or> i > maxInteger
           then Inl (RangeError
             ''bigint is too large to be represented as a 64-bit integer and passed as argument'')
           else Inr (JSBigInt i))
      | JSBoolean b \<Rightarrow> Inr (JSBigInt (if b then 1 else 0))
      | JSArrayBuffer b \<Rightarrow> Inr (JSBuffer b)
      | JSDate t \<Rightarrow> Inr (JSNumber t)
      | JSUndefined \<Rightarrow> Inl (TypeError ''undefined cannot be passed as argument to the database'')
      | _ \<Rightarrow> Inr v)"

subsection \<open>Statements, result sets and rows\<close>

text \<open>
  \<^verbatim>\<open>InStatement\<close> is a SQL string, or an object with the SQL text and its
  arguments: an array, or a record from names to values (in its enumeration order).
\<close>

datatype in_args = ArgsArray "js_value list" | ArgsRecord "(string \<times> js_value) list"

datatype in_statement = StmtString string | StmtObject string in_args

text \<open>
  The object \<^verbatim>\<open>args\<close> that the executor builds for named arguments: its own properties
  in creation order (that an enumeration lists integer-like names first is not
  modelled), and its prototype. It starts as \<^verbatim>\<open>{}\<close>, with no property and the
  prototype \<^verbatim>\<open>Object.prototype\<close>; an assignment to the name \<^verbatim>\<open>__proto__\<close> can replace the
  prototype by \<^verbatim>\<open>null\<close> or by an object.
\<close>

datatype js_prototype = ObjectPrototype | NullPrototype | ValuePrototype js_value

datatype args_object =
  ArgsObject (own_properties: "(string \<times> js_value) list") (prototype_of: js_prototype)

text \<open>The arguments as the executor hands them to the engine: an array or an object.\<close>

datatype bound_args = BoundArray "js_value list" | BoundObject args_object

text \<open>
  A row is an object built with \<^verbatim>\<open>Object.defineProperty\<close>: its own properties in
  definition order, each with its value and whether it is enumerable.
\<close>

type_synonym Row = "(string \<times> js_value \<times> bool) list"

text \<open>\<^verbatim>\<open>ResultSetImpl\<close> (util.js): the four constructor arguments, kept as fields.\<close>

record ResultSet =
  columns :: "string list"
  rows :: "Row list"
  rowsAffected :: int
  lastInsertRowid :: "int option"

text \<open>What \<^verbatim>\<open>sqlStmt.run\<close> reports.\<close>

record run_info =
  changes :: int
  info_lastInsertRowid :: rowid

subsection \<open>The engine\<close>

text \<open>
  Every call the code makes on the engine. The trace of a handle lists them in order;
  reading the flags \<^verbatim>\<open>open\<close> and \<^verbatim>\<open>inTransaction\<close> is not a call.
\<close>

datatype engine_call =
    CallOpen string
  | CallPrepare string
  | CallSafeIntegers string
  | CallRaw string
  | CallColumns string
  | CallAll string bound_args
  | CallRun string bound_args
  | CallExec string
  | CallClose

text \<open>
  The engine is a parameter: each of its operations maps the engine state to a result
  (a thrown error, or a value) and the next state. A prepared statement is named by its
  SQL text.
\<close>

record 's engine =
  eng_open :: "string \<Rightarrow> 's \<Rightarrow> (js_error + unit) \<times> 's"
  eng_inTransaction :: "'s \<Rightarrow> bool"
  eng_prepare :: "string \<Rightarrow> 's \<Rightarrow> (js_error + unit) \<times> 's"
  eng_safeIntegers :: "string \<Rightarrow> 's \<Rightarrow> (js_error + unit) \<times> 's"
  eng_raw :: "string \<Rightarrow> 's \<Rightarrow> (js_error + unit) \<times> 's"
  eng_columns :: "string \<Rightarrow> 's \<Rightarrow> (js_error + string list) \<times> 's"
  eng_all :: "string \<Rightarrow> bound_args \<Rightarrow> 's \<Rightarrow> (js_error + js_value list list) \<times> 's"
  eng_run :: "string \<Rightarrow> bound_args \<Rightarrow> 's \<Rightarrow> (js_error + run_info) \<times> 's"
  eng_exec :: "string \<Rightarrow> 's \<Rightarrow> (js_error + unit) \<times> 's"
  eng_close :: "'s \<Rightarrow> 's"

text \<open>
  The engine as the process sees it (its state and the trace of calls made so far), and
  a \<^verbatim>\<open>Database\<close> handle on it with its \<^verbatim>\<open>open\<close> flag.
\<close>

record 's world =
  w_state :: 's
  w_calls :: "engine_call list"

record 's database =
  db_open :: bool
  db_state :: 's
  db_calls :: "engine_call list"

definition engine_call :: "engine_call \<Rightarrow> ('s \<Rightarrow> (js_error + 'a) \<times> 's) \<Rightarrow> 's database
    \<Rightarrow> (js_error + 'a) \<times> 's database" where
  "engine_call c f db =
     (case f (db_state db) of
        (r, s') \<Rightarrow> (r, db\<lparr>db_state := s', db_calls := db_calls db @ [c]\<rparr>))"

definition db_inTransaction :: "'s engine \<Rightarrow> 's database \<Rightarrow> bool" where
  "db_inTransaction eng db = eng_inTransaction eng (db_state db)"

text \<open>\<^verbatim>\<open>db.close()\<close>: the handle is released, the engine rolls back what is uncommitted.\<close>

definition db_close :: "'s engine \<Rightarrow> 's database \<Rightarrow> 's database" where
  "db_close eng db =
     db\<lparr>db_open := False, db_state := eng_close eng (db_state db),
        db_calls := db_calls db @ [CallClose]\<rparr>"

definition world_of :: "'s database \<Rightarrow> 's world" where
  "world_of db = \<lparr>w_state = db_state db, w_calls = db_calls db\<rparr>"

subsection \<open>ErrorMapper: \<open>mapSqliteError\<close>\<close>

definition mapSqliteError :: "js_error \<Rightarrow> js_error" where
  "mapSqliteError e =
     (case e of
        SqliteError message code \<Rightarrow> LibsqlError message code (Some e)
      | _ \<Rightarrow> e)"

subsection \<open>StatementExecutor: \<open>executeStmt\<close>, \<open>rowFromSql\<close>, \<open>executeMultiple\<close>\<close>

text \<open>\<^verbatim>\<open>stmt.args.map(valueToSql)\<close>: the first value that fails ends the call.\<close>

fun map_valueToSql :: "js_value list \<Rightarrow> js_error + js_value list" where
  "map_valueToSql [] = Inr []"
| "map_valueToSql (v # vs) =
     (case valueToSql v of
        Inl e \<Rightarrow> Inl e
      | Inr x \<Rightarrow>
          (case map_valueToSql vs of
             Inl e \<Rightarrow> Inl e
           | Inr xs \<Rightarrow> Inr (x # xs)))"

text \<open>
  Lines 210 and 211: \<^verbatim>\<open>name[0]\<close> of the empty string is \<^verbatim>\<open>undefined\<close>, which is none of
  the three sigils; \<^verbatim>\<open>name.substring(1)\<close> drops the first character.
\<close>

definition argName :: "string \<Rightarrow> string" where
  "argName name =
     (case name of
        [] \<Rightarrow> name
      | c # rest \<Rightarrow>
          (if c = CHR ''@'' \<or> c = CHR ''$'' \<or> c = CHR '':'' then rest else name))"

text \<open>
  \<^verbatim>\<open>args[argName] = x\<close>, line 212. An own property keeps its place and takes the new
  value, and a new one goes last (\<open>own_set\<close>).
\<close>

fun own_set :: "(string \<times> js_value) list \<Rightarrow> string \<Rightarrow> js_value \<Rightarrow> (string \<times> js_value) list" where
  "own_set [] k x = [(k, x)]"
| "own_set ((k', x') # ps) k x =
     (if k' = k then (k, x) # ps else (k', x') # own_set ps k x)"

definition is_Object :: "js_value \<Rightarrow> bool" where
  "is_Object x =
     (case x of JSArrayBuffer b \<Rightarrow> True | JSBuffer b \<Rightarrow> True | JSDate t \<Rightarrow> True | _ \<Rightarrow> False)"

text \<open>
  The setter of \<^verbatim>\<open>Object.prototype.__proto__\<close>: \<^verbatim>\<open>null\<close> and an object become the new
  prototype, any other value is ignored.
\<close>

definition proto_setter :: "js_prototype \<Rightarrow> js_value \<Rightarrow> js_prototype" where
  "proto_setter p x =
     (if x = JSNull then NullPrototype else if is_Object x then ValuePrototype x else p)"

text \<open>
  The name \<^verbatim>\<open>__proto__\<close> is special as long as \<^verbatim>\<open>Object.prototype\<close> is on the prototype
  chain of \<^verbatim>\<open>args\<close>: the assignment then runs the setter and creates no own property, so
  the value is bound to no name. With the prototype \<^verbatim>\<open>null\<close> the name is a name like any
  other. Every other name becomes an own property. What the prototype chain of a
  \<^verbatim>\<open>Buffer\<close> adds to this, once such an object has become the prototype (its read-only
  \<^verbatim>\<open>length\<close>, say), is not modelled.
\<close>

definition object_set :: "args_object \<Rightarrow> string \<Rightarrow> js_value \<Rightarrow> args_object" where
  "object_set obj k x =
     (case obj of
        ArgsObject props proto \<Rightarrow>
          (if k = ''__proto__'' \<and> map_of props k = None \<and> proto \<noteq> NullPrototype
           then ArgsObject props (proto_setter proto x)
           else ArgsObject (own_set props k x) proto))"

text \<open>The \<^verbatim>\<open>for (const name in stmt.args)\<close> loop, lines 209 to 213.\<close>

fun named_valueToSql :: "(string \<times> js_value) list \<Rightarrow> args_object
    \<Rightarrow> js_error + args_object" where
  "named_valueToSql [] args = Inr args"
| "named_valueToSql ((name, v) # rest) args =
     (case valueToSql v of
        Inl e \<Rightarrow> Inl e
      | Inr x \<Rightarrow> named_valueToSql rest (object_set args (argName name) x))"

text \<open>Lines 200 to 215: the SQL text and the encoded arguments of a statement.\<close>

definition statement_args :: "in_statement \<Rightarrow> js_error + string \<times> bound_args" where
  "statement_args stmt =
     (case stmt of
        StmtString sql \<Rightarrow> Inr (sql, BoundArray [])
      | StmtObject sql (ArgsArray vs) \<Rightarrow>
          (case map_valueToSql vs of
             Inl e \<Rightarrow> Inl e
           | Inr xs \<Rightarrow> Inr (sql, BoundArray xs))
      | StmtObject sql (ArgsRecord kvs) \<Rightarrow>
          (case named_valueToSql kvs (ArgsObject [] ObjectPrototype) of
             Inl e \<Rightarrow> Inl e
           | Inr args \<Rightarrow> Inr (sql, BoundObject args)))"

definition hasOwn :: "Row \<Rightarrow> string \<Rightarrow> bool" where
  "hasOwn row k = (map_of row k \<noteq> None)"

text \<open>
  \<^verbatim>\<open>Object.defineProperty(row, key, {value})\<close> or \<^verbatim>\<open>{value, enumerable: true}\<close>. A new
  property is enumerable only when the descriptor says so; it is neither writable nor
  configurable, so defining it again succeeds only with the same value and no other
  enumerability, and throws a TypeError otherwise.
\<close>

definition defineProperty :: "Row \<Rightarrow> string \<Rightarrow> js_value \<Rightarrow> bool option \<Rightarrow> js_error + Row" where
  "defineProperty row key v enumerable =
     (case map_of row key of
        None \<Rightarrow> Inr (row @ [(key, v, (case enumerable of None \<Rightarrow> False | Some b \<Rightarrow> b))])
      | Some (v', en') \<Rightarrow>
          (if v' = v \<and> (enumerable = None \<or> enumerable = Some en') then Inr row
           else Inl (TypeError (''Cannot redefine property: '' @ key))))"

text \<open>
  The loop of \<open>rowFromSql\<close>, lines 253 to 261, from index \<open>i\<close> on. \<^verbatim>\<open>columns[i]\<close> past the
  end of \<^verbatim>\<open>columns\<close> is \<^verbatim>\<open>undefined\<close>, which as a property key is the string "undefined".
\<close>

fun rowFromSql_loop :: "js_value list \<Rightarrow> nat \<Rightarrow> string list \<Rightarrow> IntMode \<Rightarrow> Row
    \<Rightarrow> js_error + Row" where
  "rowFromSql_loop [] i cols intMode row = Inr row"
| "rowFromSql_loop (x # xs) i cols intMode row =
     (case valueFromSql x intMode of
        Inl e \<Rightarrow> Inl e
      | Inr v \<Rightarrow>
          (case defineProperty row (digits_of_nat i) v None of
             Inl e \<Rightarrow> Inl e
           | Inr row1 \<Rightarrow>
               (let column = (if i < length cols then cols ! i else ''undefined'') in
                if \<not> hasOwn row1 column
                then (case defineProperty row1 column v (Some True) of
                        Inl e \<Rightarrow> Inl e
                      | Inr row2 \<Rightarrow> rowFromSql_loop xs (Suc i) cols intMode row2)
                else rowFromSql_loop xs (Suc i) cols intMode row1)))"

definition rowFromSql :: "js_value list \<Rightarrow> string list \<Rightarrow> IntMode \<Rightarrow> js_error + Row" where
  "rowFromSql sqlRow cols intMode =
     (case defineProperty [] ''length'' (JSNumber (NumFinite (of_nat (length sqlRow)))) None of
        Inl e \<Rightarrow> Inl e
      | Inr row \<Rightarrow> rowFromSql_loop sqlRow 0 cols intMode row)"

fun map_rowFromSql :: "js_value list list \<Rightarrow> string list \<Rightarrow> IntMode \<Rightarrow> js_error + Row list" where
  "map_rowFromSql [] cols intMode = Inr []"
| "map_rowFromSql (sqlRow # sqlRows) cols intMode =
     (case rowFromSql sqlRow cols intMode of
        Inl e \<Rightarrow> Inl e
      | Inr row \<Rightarrow>
          (case map_rowFromSql sqlRows cols intMode of
             Inl e \<Rightarrow> Inl e
           | Inr rs \<Rightarrow> Inr (row # rs)))"

text \<open>
  The \<^verbatim>\<open>try\<close> block of \<open>executeStmt\<close>, lines 218 to 243, in three parts. First
  the statement is prepared and probed, lines 218 to 227: whatever \<^verbatim>\<open>raw(true)\<close>
  throws is swallowed and sets \<^verbatim>\<open>returnsData\<close> to false.
\<close>

definition executeStmt_probe :: "'s engine \<Rightarrow> 's database \<Rightarrow> string
    \<Rightarrow> (js_error + bool) \<times> 's database" where
  "executeStmt_probe eng db sql =
     (case engine_call (CallPrepare sql) (eng_prepare eng sql) db of
        (Inl e, db1) \<Rightarrow> (Inl e, db1)
      | (Inr u1, db1) \<Rightarrow>
          (case engine_call (CallSafeIntegers sql) (eng_safeIntegers eng sql) db1 of
             (Inl e, db2) \<Rightarrow> (Inl e, db2)
           | (Inr u2, db2) \<Rightarrow>
               (case engine_call (CallRaw sql) (eng_raw eng sql) db2 of
                  (Inr u3, db3) \<Rightarrow> (Inr True, db3)
                | (Inl e3, db3) \<Rightarrow> (Inr False, db3))))"

text \<open>The branch for a statement that returns data, lines 230 to 237.\<close>

definition executeStmt_rows :: "'s engine \<Rightarrow> 's database \<Rightarrow> string \<Rightarrow> bound_args \<Rightarrow> IntMode
    \<Rightarrow> (js_error + ResultSet) \<times> 's database" where
  "executeStmt_rows eng db sql args intMode =
     (case engine_call (CallColumns sql) (eng_columns eng sql) db of
        (Inl e, db1) \<Rightarrow> (Inl e, db1)
      | (Inr cols, db1) \<Rightarrow>
          (case engine_call (CallAll sql args) (eng_all eng sql args) db1 of
             (Inl e, db2) \<Rightarrow> (Inl e, db2)
           | (Inr sqlRows, db2) \<Rightarrow>
               (case map_rowFromSql sqlRows cols intMode of
                  Inl e \<Rightarrow> (Inl e, db2)
                | Inr rs \<Rightarrow>
                    (Inr \<lparr>columns = cols, rows = rs, rowsAffected = 0, lastInsertRowid = None\<rparr>,
                     db2))))"

text \<open>The branch for a statement that returns no data, lines 239 to 242.\<close>

definition executeStmt_run :: "'s engine \<Rightarrow> 's database \<Rightarrow> string \<Rightarrow> bound_args
    \<Rightarrow> (js_error + ResultSet) \<times> 's database" where
  "executeStmt_run eng db sql args =
     (case engine_call (CallRun sql args) (eng_run eng sql args) db of
        (Inl e, db1) \<Rightarrow> (Inl e, db1)
      | (Inr info, db1) \<Rightarrow>
          (case BigInt_of_rowid (info_lastInsertRowid info) of
             Inl e \<Rightarrow> (Inl e, db1)
           | Inr rid \<Rightarrow>
               (Inr \<lparr>columns = [], rows = [], rowsAffected = changes info,
                     lastInsertRowid = Some rid\<rparr>,
                db1)))"

definition executeStmt_try :: "'s engine \<Rightarrow> 's database \<Rightarrow> string \<Rightarrow> bound_args \<Rightarrow> IntMode
    \<Rightarrow> (js_error + ResultSet) \<times> 's database" where
  "executeStmt_try eng db sql args intMode =
     (case executeStmt_probe eng db sql of
        (Inl e, db') \<Rightarrow> (Inl e, db')
      | (Inr returnsData, db') \<Rightarrow>
          (if returnsData then executeStmt_rows eng db' sql args intMode
           else executeStmt_run eng db' sql args))"

text \<open>
  \<open>executeStmt\<close>, lines 197 to 247: the arguments are encoded before the \<^verbatim>\<open>try\<close>
  block, and what the block throws goes through \<open>mapSqliteError\<close>.
\<close>

definition executeStmt :: "'s engine \<Rightarrow> 's database \<Rightarrow> in_statement \<Rightarrow> IntMode
    \<Rightarrow> (js_error + ResultSet) \<times> 's database" where
  "executeStmt eng db stmt intMode =
     (case statement_args stmt of
        Inl e \<Rightarrow> (Inl e, db)
      | Inr (sql, args) \<Rightarrow>
          (case executeStmt_try eng db sql args intMode of
             (Inl e, db') \<Rightarrow> (Inl (mapSqliteError e), db')
           | (Inr rs, db') \<Rightarrow> (Inr rs, db')))"

definition executeMultiple :: "'s engine \<Rightarrow> 's database \<Rightarrow> string
    \<Rightarrow> (js_error + unit) \<times> 's database" where
  "executeMultiple eng db sql =
     (case engine_call (CallExec sql) (eng_exec eng sql) db of
        (Inl e, db') \<Rightarrow> (Inl (mapSqliteError e), db')
      | (Inr u, db') \<Rightarrow> (Inr (), db'))"

subsection \<open>\<open>Sqlite3Client\<close>\<close>

text \<open>
  The client's fields (\<^verbatim>\<open>#options\<close> is the empty object and \<^verbatim>\<open>protocol\<close> the constant
  "file"). \<^verbatim>\<open>transactionModeToBegin\<close> (util.js) maps a transaction mode to its BEGIN
  statement; it is a parameter of the operations that use it.
\<close>

record Sqlite3Client =
  c_path :: string
  c_intMode :: IntMode
  c_closed :: bool

datatype TransactionMode = ModeWrite | ModeRead | ModeDeferred

text \<open>A transaction owns its handle; lines 140 to 148.\<close>

record 's Sqlite3Transaction =
  tx_database :: "'s database"
  tx_intMode :: IntMode

definition new_Database :: "'s engine \<Rightarrow> string \<Rightarrow> 's world
    \<Rightarrow> (js_error + 's database) \<times> 's world" where
  "new_Database eng path w =
     (case eng_open eng path (w_state w) of
        (r, s') \<Rightarrow>
          (let w' = \<lparr>w_state = s', w_calls = w_calls w @ [CallOpen path]\<rparr> in
           case r of
             Inl e \<Rightarrow> (Inl e, w')
           | Inr u \<Rightarrow> (Inr \<lparr>db_open = True, db_state = s', db_calls = w_calls w'\<rparr>, w')))"

definition client_checkNotClosed :: "Sqlite3Client \<Rightarrow> js_error + unit" where
  "client_checkNotClosed c =
     (if c_closed c then Inl (LibsqlError ''The client is closed'' ''CLIENT_CLOSED'' None)
      else Inr ())"

text \<open>\<open>execute\<close>, lines 79 to 87; the \<^verbatim>\<open>finally\<close> block closes the handle on every path.\<close>

definition client_execute :: "'s engine \<Rightarrow> Sqlite3Client \<Rightarrow> in_statement \<Rightarrow> 's world
    \<Rightarrow> (js_error + ResultSet) \<times> 's world" where
  "client_execute eng c stmt w =
     (case client_checkNotClosed c of
        Inl e \<Rightarrow> (Inl e, w)
      | Inr u \<Rightarrow>
          (case new_Database eng (c_path c) w of
             (Inl e, w') \<Rightarrow> (Inl e, w')
           | (Inr db, w') \<Rightarrow>
               (case executeStmt eng db stmt (c_intMode c) of
                  (r, db') \<Rightarrow> (r, world_of (db_close eng db')))))"

text \<open>The \<^verbatim>\<open>stmts.map\<close> of the client's \<open>batch\<close>, lines 94 to 99.\<close>

fun client_batch_map :: "'s engine \<Rightarrow> 's database \<Rightarrow> in_statement list \<Rightarrow> IntMode
    \<Rightarrow> (js_error + ResultSet list) \<times> 's database" where
  "client_batch_map eng db [] intMode = (Inr [], db)"
| "client_batch_map eng db (stmt # stmts) intMode =
     (if \<not> db_inTransaction eng db
      then (Inl (LibsqlError ''The transaction has been rolled back'' ''TRANSACTION_CLOSED'' None),
            db)
      else
        (case executeStmt eng db stmt intMode of
           (Inl e, db1) \<Rightarrow> (Inl e, db1)
         | (Inr rs, db1) \<Rightarrow>
             (case client_batch_map eng db1 stmts intMode of
                (Inl e, db2) \<Rightarrow> (Inl e, db2)
              | (Inr rss, db2) \<Rightarrow> (Inr (rs # rss), db2))))"

text \<open>\<open>batch\<close>, lines 89 to 105.\<close>

definition client_batch :: "(TransactionMode \<Rightarrow> string) \<Rightarrow> 's engine \<Rightarrow> Sqlite3Client
    \<Rightarrow> in_statement list \<Rightarrow> TransactionMode \<Rightarrow> 's world
    \<Rightarrow> (js_error + ResultSet list) \<times> 's world" where
  "client_batch transactionModeToBegin eng c stmts mode w =
     (case client_checkNotClosed c of
        Inl e \<Rightarrow> (Inl e, w)
      | Inr u \<Rightarrow>
          (case new_Database eng (c_path c) w of
             (Inl e, w') \<Rightarrow> (Inl e, w')
           | (Inr db, w') \<Rightarrow>
               (case
                  (case executeStmt eng db (StmtString (transactionModeToBegin mode)) (c_intMode c) of
                     (Inl e, db1) \<Rightarrow> (Inl e, db1)
                   | (Inr rs0, db1) \<Rightarrow>
                       (case client_batch_map eng db1 stmts (c_intMode c) of
                          (Inl e, db2) \<Rightarrow> (Inl e, db2)
                        | (Inr resultSets, db2) \<Rightarrow>
                            (case executeStmt eng db2 (StmtString ''COMMIT'') (c_intMode c) of
                               (Inl e, db3) \<Rightarrow> (Inl e, db3)
                             | (Inr rs1, db3) \<Rightarrow> (Inr resultSets, db3))))
                of (r, db') \<Rightarrow> (r, world_of (db_close eng db')))))"

text \<open>
  \<open>transaction\<close>, lines 107 to 117: the handle is closed only when BEGIN fails; on
  success the transaction owns it, and the world returned is the engine as BEGIN left it.
\<close>

definition client_transaction :: "(TransactionMode \<Rightarrow> string) \<Rightarrow> 's engine \<Rightarrow> Sqlite3Client
    \<Rightarrow> TransactionMode \<Rightarrow> 's world \<Rightarrow> (js_error + 's Sqlite3Transaction) \<times> 's world" where
  "client_transaction transactionModeToBegin eng c mode w =
     (case client_checkNotClosed c of
        Inl e \<Rightarrow> (Inl e, w)
      | Inr u \<Rightarrow>
          (case new_Database eng (c_path c) w of
             (Inl e, w') \<Rightarrow> (Inl e, w')
           | (Inr db, w') \<Rightarrow>
               (case executeStmt eng db (StmtString (transactionModeToBegin mode)) (c_intMode c) of
                  (Inl e, db1) \<Rightarrow> (Inl e, world_of (db_close eng db1))
                | (Inr rs0, db1) \<Rightarrow>
                    (Inr \<lparr>tx_database = db1, tx_intMode = c_intMode c\<rparr>, world_of db1))))"

text \<open>\<open>executeMultiple\<close>, lines 119 to 127.\<close>

definition client_executeMultiple :: "'s engine \<Rightarrow> Sqlite3Client \<Rightarrow> string \<Rightarrow> 's world
    \<Rightarrow> (js_error + unit) \<times> 's world" where
  "client_executeMultiple eng c sql w =
     (case client_checkNotClosed c of
        Inl e \<Rightarrow> (Inl e, w)
      | Inr u \<Rightarrow>
          (case new_Database eng (c_path c) w of
             (Inl e, w') \<Rightarrow> (Inl e, w')
           | (Inr db, w') \<Rightarrow>
               (case executeMultiple eng db sql of
                  (r, db') \<Rightarrow> (r, world_of (db_close eng db')))))"

definition client_close :: "Sqlite3Client \<Rightarrow> Sqlite3Client" where
  "client_close c = c\<lparr>c_closed := True\<rparr>"

subsection \<open>\<open>Sqlite3Transaction\<close>\<close>

text \<open>\<open>#checkNotClosed\<close>, lines 190 to 194.\<close>

definition tx_checkNotClosed :: "'s engine \<Rightarrow> 's Sqlite3Transaction \<Rightarrow> js_error + unit" where
  "tx_checkNotClosed eng tx =
     (if \<not> db_open (tx_database tx) \<or> \<not> db_inTransaction eng (tx_database tx)
      then Inl (LibsqlError ''The transaction is closed'' ''TRANSACTION_CLOSED'' None)
      else Inr ())"

definition tx_execute :: "'s engine \<Rightarrow> 's Sqlite3Transaction \<Rightarrow> in_statement
    \<Rightarrow> (js_error + ResultSet) \<times> 's Sqlite3Transaction" where
  "tx_execute eng tx stmt =
     (case tx_checkNotClosed eng tx of
        Inl e \<Rightarrow> (Inl e, tx)
      | Inr u \<Rightarrow>
          (case executeStmt eng (tx_database tx) stmt (tx_intMode tx) of
             (r, db') \<Rightarrow> (r, tx\<lparr>tx_database := db'\<rparr>)))"

text \<open>
  \<open>batch\<close>, lines 155 to 160: the check is made inside the \<^verbatim>\<open>map\<close> callback, once
  before each statement.
\<close>

fun tx_batch :: "'s engine \<Rightarrow> 's Sqlite3Transaction \<Rightarrow> in_statement list
    \<Rightarrow> (js_error + ResultSet list) \<times> 's Sqlite3Transaction" where
  "tx_batch eng tx [] = (Inr [], tx)"
| "tx_batch eng tx (stmt # stmts) =
     (case tx_checkNotClosed eng tx of
        Inl e \<Rightarrow> (Inl e, tx)
      | Inr u \<Rightarrow>
          (case executeStmt eng (tx_database tx) stmt (tx_intMode tx) of
             (Inl e, db1) \<Rightarrow> (Inl e, tx\<lparr>tx_database := db1\<rparr>)
           | (Inr rs, db1) \<Rightarrow>
               (case tx_batch eng (tx\<lparr>tx_database := db1\<rparr>) stmts of
                  (Inl e, tx2) \<Rightarrow> (Inl e, tx2)
                | (Inr rss, tx2) \<Rightarrow> (Inr (rs # rss), tx2))))"

definition tx_executeMultiple :: "'s engine \<Rightarrow> 's Sqlite3Transaction \<Rightarrow> string
    \<Rightarrow> (js_error + unit) \<times> 's Sqlite3Transaction" where
  "tx_executeMultiple eng tx sql =
     (case tx_checkNotClosed eng tx of
        Inl e \<Rightarrow> (Inl e, tx)
      | Inr u \<Rightarrow>
          (case executeMultiple eng (tx_database tx) sql of
             (r, db') \<Rightarrow> (r, tx\<lparr>tx_database := db'\<rparr>)))"

text \<open>\<open>rollback\<close>, lines 167 to 174.\<close>

definition tx_rollback :: "'s engine \<Rightarrow> 's Sqlite3Transaction
    \<Rightarrow> (js_error + unit) \<times> 's Sqlite3Transaction" where
  "tx_rollback eng tx =
     (if \<not> db_open (tx_database tx) then (Inr (), tx)
      else
        (case tx_checkNotClosed eng tx of
           Inl e \<Rightarrow> (Inl e, tx)
         | Inr u \<Rightarrow>
             (case executeStmt eng (tx_database tx) (StmtString ''ROLLBACK'') (tx_intMode tx) of
                (Inl e, db') \<Rightarrow> (Inl e, tx\<lparr>tx_database := db'\<rparr>)
              | (Inr rs, db') \<Rightarrow> (Inr (), tx\<lparr>tx_database := db_close eng db'\<rparr>))))"

text \<open>\<open>commit\<close>, lines 176 to 180.\<close>

definition tx_commit :: "'s engine \<Rightarrow> 's Sqlite3Transaction
    \<Rightarrow> (js_error + unit) \<times> 's Sqlite3Transaction" where
  "tx_commit eng tx =
     (case tx_checkNotClosed eng tx of
        Inl e \<Rightarrow> (Inl e, tx)
      | Inr u \<Rightarrow>
          (case executeStmt eng (tx_database tx) (StmtString ''COMMIT'') (tx_intMode tx) of
             (Inl e, db') \<Rightarrow> (Inl e, tx\<lparr>tx_database := db'\<rparr>)
           | (Inr rs, db') \<Rightarrow> (Inr (), tx\<lparr>tx_database := db_close eng db'\<rparr>)))"

text \<open>\<open>close\<close> and the getter \<open>closed\<close>, lines 182 to 188.\<close>

definition tx_close :: "'s engine \<Rightarrow> 's Sqlite3Transaction \<Rightarrow> 's Sqlite3Transaction" where
  "tx_close eng tx = tx\<lparr>tx_database := db_close eng (tx_database tx)\<rparr>"

definition tx_closed :: "'s Sqlite3Transaction \<Rightarrow> bool" where
  "tx_closed tx = (\<not> db_open (tx_database tx))"

subsection \<open>The value of a decimal string\<close>

text \<open>
  The specification calls the string decoded under mode "string" the exact base-10
  digit string of the integer. \<open>spec_decimal_value\<close> follows these words: it reads an
  optional minus sign and decimal digits back into an integer. It is not part of the
  source; it serves to say that \<open>String_of_bigint\<close> loses nothing.
\<close>

definition digit_value :: "char \<Rightarrow> nat" where
  "digit_value c = length (takeWhile (\<lambda>x. x \<noteq> c) ''0123456789'')"

definition spec_decimal_nat :: "string \<Rightarrow> nat" where
  "spec_decimal_nat ds = foldl (\<lambda>acc c. 10 * acc + digit_value c) 0 ds"

definition spec_decimal_value :: "string \<Rightarrow> int" where
  "spec_decimal_value s =
     (case s of
        [] \<Rightarrow> 0
      | c # ds \<Rightarrow> (if c = CHR ''-'' then - int (spec_decimal_nat ds) else int (spec_decimal_nat s)))"

subsection \<open>Binding by name\<close>

text \<open>
  The specification has named arguments as a mapping from parameter names to values.
  \<open>spec_bind_named\<close> follows these words: it binds every name of the mapping, as it is
  written there, to the encoded value. It is not part of the source; the loop of the
  source is compared with it.
\<close>

fun spec_bind_named :: "(string \<times> js_value) list \<Rightarrow> args_object \<Rightarrow> js_error + args_object" where
  "spec_bind_named [] args = Inr args"
| "spec_bind_named ((name, v) # rest) args =
     (case valueToSql v of
        Inl e \<Rightarrow> Inl e
      | Inr x \<Rightarrow> spec_bind_named rest (object_set args name x))"

subsection \<open>An engine for the examples\<close>

text \<open>
  A small engine on which the theorems below are run. Its state records whether a
  transaction is active and whether the database is locked by another connection.
  Statements that start with SELECT return one row; BEGIN, COMMIT and ROLLBACK switch
  the transaction flag; COMMIT on a locked database fails with SQLITE_BUSY; the
  statement BAD fails to prepare with a \<^verbatim>\<open>SqliteError\<close>. An argument array that holds a
  symbol cannot be bound: \<^verbatim>\<open>all\<close> and \<^verbatim>\<open>run\<close> then fail with a plain \<^verbatim>\<open>Error\<close>, which is no
  \<^verbatim>\<open>SqliteError\<close>.
\<close>

record stub_state =
  st_inTransaction :: bool
  st_locked :: bool

definition is_Symbol :: "js_value \<Rightarrow> bool" where
  "is_Symbol x = (case x of JSSymbol d \<Rightarrow> True | _ \<Rightarrow> False)"

definition stub_unbindable :: "bound_args \<Rightarrow> bool" where
  "stub_unbindable args =
     (case args of
        BoundArray vs \<Rightarrow> filter is_Symbol vs \<noteq> []
      | BoundObject obj \<Rightarrow> filter is_Symbol (map snd (own_properties obj)) \<noteq> [])"

definition stub_engine :: "stub_state engine" where
  "stub_engine =
     \<lparr>eng_open = (\<lambda>path s. (Inr (), s)),
      eng_inTransaction = st_inTransaction,
      eng_prepare = (\<lambda>sql s.
        (if sql = ''BAD'' then Inl (SqliteError ''near BAD: syntax error'' ''SQLITE_ERROR'')
         else Inr (), s)),
      eng_safeIntegers = (\<lambda>sql s. (Inr (), s)),
      eng_raw = (\<lambda>sql s.
        (if take 6 sql = ''SELECT'' then Inr ()
         else Inl (TypeError ''This statement does not return data''), s)),
      eng_columns = (\<lambda>sql s. (Inr [''x''], s)),
      eng_all = (\<lambda>sql args s.
        (if stub_unbindable args then Inl (Error ''unsupported type of argument'')
         else Inr [[JSBigInt 1]], s)),
      eng_run = (\<lambda>sql args s.
        if stub_unbindable args then (Inl (Error ''unsupported type of argument''), s)
        else if sql = ''COMMIT'' then
          (if st_locked s then (Inl (SqliteError ''database is locked'' ''SQLITE_BUSY''), s)
           else (Inr \<lparr>changes = 0, info_lastInsertRowid = RowidBigInt 0\<rparr>,
                 s\<lparr>st_inTransaction := False\<rparr>))
        else if sql = ''ROLLBACK'' then
          (Inr \<lparr>changes = 0, info_lastInsertRowid = RowidBigInt 0\<rparr>,
           s\<lparr>st_inTransaction := False\<rparr>)
        else if take 5 sql = ''BEGIN'' then
          (Inr \<lparr>changes = 0, info_lastInsertRowid = RowidBigInt 0\<rparr>,
           s\<lparr>st_inTransaction := True\<rparr>)
        else (Inr \<lparr>changes = 1, info_lastInsertRowid = RowidBigInt 7\<rparr>, s)),
      eng_exec = (\<lambda>sql s. (Inr (), s)),
      eng_close = (\<lambda>s. s\<lparr>st_inTransaction := False\<rparr>)\<rparr>"

definition stub_db :: "bool \<Rightarrow> bool \<Rightarrow> bool \<Rightarrow> stub_state database" where
  "stub_db is_open in_tx locked =
     \<lparr>db_open = is_open,
      db_state = \<lparr>st_inTransaction = in_tx, st_locked = locked\<rparr>,
      db_calls = []\<rparr>"

definition stub_tx :: "bool \<Rightarrow> bool \<Rightarrow> bool \<Rightarrow> stub_state Sqlite3Transaction" where
  "stub_tx is_open in_tx locked =
     \<lparr>tx_database = stub_db is_open in_tx locked, tx_intMode = IntModeNumber\<rparr>"

definition stub_client :: Sqlite3Client where
  "stub_client = \<lparr>c_path = ''test.db'', c_intMode = IntModeNumber, c_closed = False\<rparr>"

section \<open>Properties of the value codec\<close>

subsection \<open>Decoding integers\<close>

lemma Number_of_bigint_safe:
  "\<bar>v\<bar> \<le> 9007199254740991 \<Longrightarrow> Number_of_bigint v = NumFinite (of_int v)"
  unfolding Number_of_bigint_def Let_def
  by (simp add: bitlen_le_iff_power)

text \<open>
  Claim C1. Decoding an integer \<open>v\<close> received from the engine under mode "number"
  succeeds exactly when \<open>\<bar>v\<bar> \<le> 2 ^ 53 - 1\<close>, and then returns the number whose value is
  \<open>v\<close> itself (nothing is rounded); every other integer raises the range error. The
  statement holds for every integer, so for every 64-bit one.
\<close>

theorem valueFromSql_number:
  "valueFromSql (JSBigInt v) IntModeNumber =
     (if \<bar>v\<bar> \<le> 2 ^ 53 - 1 then Inr (JSNumber (NumFinite (of_int v)))
      else Inl (RangeError
        ''Received integer which cannot be safely represented as a JavaScript number''))"
proof (cases "\<bar>v\<bar> \<le> 9007199254740991")
  case True
  then have "\<not> (v < minSafeBigint \<or> v > maxSafeBigint)"
    unfolding minSafeBigint_def maxSafeBigint_def by linarith
  with True show ?thesis
    by (simp add: valueFromSql_def Number_of_bigint_safe)
next
  case False
  then have "v < minSafeBigint \<or> v > maxSafeBigint"
    unfolding minSafeBigint_def maxSafeBigint_def by linarith
  with False show ?thesis
    by (simp add: valueFromSql_def)
qed

text \<open>The two ends of the safe range, and the first integer beyond it.\<close>

theorem valueFromSql_number_witness:
  "valueFromSql (JSBigInt 9007199254740991) IntModeNumber =
     Inr (JSNumber (NumFinite 9007199254740991))
   \<and> valueFromSql (JSBigInt (- 9007199254740992)) IntModeNumber =
       Inl (RangeError
         ''Received integer which cannot be safely represented as a JavaScript number'')"
  using valueFromSql_number [of 9007199254740991]
    valueFromSql_number [of "- 9007199254740992"]
  by simp

subsection \<open>Decimal strings\<close>

lemma below_ten_cases:
  "(d::nat) < 10 \<Longrightarrow>
     d = 0 \<or> d = 1 \<or> d = 2 \<or> d = 3 \<or> d = 4 \<or> d = 5 \<or> d = 6 \<or> d = 7 \<or> d = 8 \<or> d = 9"
  by arith

lemma digit_value_digit_char: "d < 10 \<Longrightarrow> digit_value (digit_char d) = d"
  by (drule below_ten_cases, elim disjE) (simp_all add: digit_value_def digit_char_def)

lemma digit_char_not_minus: "digit_char d \<noteq> CHR ''-''"
proof -
  have "d mod 10 < 10" by simp
  from below_ten_cases [OF this] show ?thesis
    unfolding digit_char_def
    by (elim disjE) simp_all
qed

lemma spec_decimal_nat_snoc:
  "spec_decimal_nat (ds @ [c]) = 10 * spec_decimal_nat ds + digit_value c"
  by (simp add: spec_decimal_nat_def)

lemma spec_decimal_nat_digits: "spec_decimal_nat (digits_of_nat n) = n"
proof (induction n rule: digits_of_nat.induct)
  case (1 n)
  show ?case
  proof (cases "n < 10")
    case True
    then show ?thesis
      by (subst digits_of_nat.simps) (simp add: spec_decimal_nat_def digit_value_digit_char)
  next
    case False
    with 1 have "spec_decimal_nat (digits_of_nat (n div 10)) = n div 10" by simp
    with False show ?thesis
      by (subst digits_of_nat.simps) (simp add: spec_decimal_nat_snoc digit_value_digit_char)
  qed
qed

lemma digits_of_nat_hd: "\<exists>c cs. digits_of_nat n = c # cs \<and> c \<noteq> CHR ''-''"
proof (induction n rule: digits_of_nat.induct)
  case (1 n)
  show ?case
  proof (cases "n < 10")
    case True
    then show ?thesis
      by (subst digits_of_nat.simps) (simp add: digit_char_not_minus)
  next
    case False
    with 1 obtain c cs where "digits_of_nat (n div 10) = c # cs" "c \<noteq> CHR ''-''" by auto
    with False show ?thesis
      by (subst digits_of_nat.simps) simp
  qed
qed

lemma spec_decimal_value_String_of_bigint: "spec_decimal_value (String_of_bigint v) = v"
proof (cases "v < 0")
  case True
  then show ?thesis
    by (simp add: String_of_bigint_def spec_decimal_value_def spec_decimal_nat_digits)
next
  case False
  obtain c cs where h: "digits_of_nat (nat v) = c # cs" "c \<noteq> CHR ''-''"
    using digits_of_nat_hd by blast
  have "spec_decimal_nat (c # cs) = nat v"
    using spec_decimal_nat_digits [of "nat v"] h by simp
  with False h show ?thesis
    by (simp add: String_of_bigint_def spec_decimal_value_def)
qed

subsection \<open>Decoding and encoding back\<close>

text \<open>
  Claim C2, as stated, asks that for a 64-bit integer \<open>v\<close> decoding under "bigint" or
  "string" succeeds and that encoding the decoded value gives the integer \<open>v\<close> back.
  Under "string" it does not: the integer 5 decodes to the string "5", and
  \<open>valueToSql\<close> passes a string on as it is, so the engine is handed the text "5" and
  not the integer 5.
\<close>

theorem string_mode_encodes_to_text:
  "valueFromSql (JSBigInt 5) IntModeString = Inr (JSString ''5'')
   \<and> valueToSql (JSString ''5'') = Inr (JSString ''5'')
   \<and> valueToSql (JSString ''5'') \<noteq> Inr (JSBigInt 5)"
  by (simp add: valueFromSql_def valueToSql_def String_of_bigint_def digits_of_nat.simps
      digit_char_def)

text \<open>
  Claim C2, amended. For every integer \<open>v\<close> of the signed 64-bit range: decoding under
  "bigint" succeeds with \<open>v\<close>, and encoding that gives \<open>v\<close> back; decoding under "string"
  succeeds with the decimal string of \<open>v\<close>, whose value read back is \<open>v\<close>, and encoding
  passes that string on unchanged, as text.
\<close>

theorem decode_encode_bigint_string:
  assumes "minInteger \<le> v" and "v \<le> maxInteger"
  shows "valueFromSql (JSBigInt v) IntModeBigint = Inr (JSBigInt v)
    \<and> valueToSql (JSBigInt v) = Inr (JSBigInt v)
    \<and> valueFromSql (JSBigInt v) IntModeString = Inr (JSString (String_of_bigint v))
    \<and> spec_decimal_value (String_of_bigint v) = v
    \<and> valueToSql (JSString (String_of_bigint v)) = Inr (JSString (String_of_bigint v))"
proof -
  from assms have "\<not> (v < minInteger \<or> v > maxInteger)" by simp
  then have "valueToSql (JSBigInt v) = Inr (JSBigInt v)"
    by (simp add: valueToSql_def)
  then show ?thesis
    by (simp add: valueFromSql_def valueToSql_def spec_decimal_value_String_of_bigint)
qed

text \<open>The least 64-bit integer, through both modes.\<close>

theorem decode_encode_bigint_string_witness:
  "valueFromSql (JSBigInt (- 9223372036854775808)) IntModeBigint =
     Inr (JSBigInt (- 9223372036854775808))
   \<and> valueToSql (JSBigInt (- 9223372036854775808)) = Inr (JSBigInt (- 9223372036854775808))
   \<and> valueFromSql (JSBigInt (- 9223372036854775808)) IntModeString =
       Inr (JSString (String_of_bigint (- 9223372036854775808)))
   \<and> spec_decimal_value (String_of_bigint (- 9223372036854775808)) = - 9223372036854775808"
proof -
  have lo: "minInteger \<le> - 9223372036854775808"
    by (simp add: minInteger_def)
  have hi: "- 9223372036854775808 \<le> maxInteger"
    by (simp add: maxInteger_def)
  from decode_encode_bigint_string [OF lo hi] show ?thesis by simp
qed

section \<open>Properties of the statement executor\<close>

subsection \<open>Encoding the arguments\<close>

lemma map_valueToSql_fails:
  "v \<in> set vs \<Longrightarrow> valueToSql v = Inl e \<Longrightarrow>
     \<exists>e'. (\<exists>v'\<in>set vs. valueToSql v' = Inl e') \<and> map_valueToSql vs = Inl e'"
proof (induction vs)
  case Nil
  then show ?case by simp
next
  case (Cons a vs)
  show ?case
  proof (cases "valueToSql a")
    case (Inl e0)
    then show ?thesis by auto
  next
    case (Inr x)
    with Cons.prems have "v \<in> set vs" by auto
    from Cons.IH [OF this Cons.prems(2)] obtain e' where
      "\<exists>v'\<in>set vs. valueToSql v' = Inl e'" "map_valueToSql vs = Inl e'" by blast
    with Inr show ?thesis by auto
  qed
qed

lemma named_valueToSql_fails:
  "(k, v) \<in> set kvs \<Longrightarrow> valueToSql v = Inl e \<Longrightarrow>
     \<exists>e'. (\<exists>v'\<in>snd ` set kvs. valueToSql v' = Inl e') \<and> named_valueToSql kvs acc = Inl e'"
proof (induction kvs arbitrary: acc)
  case Nil
  then show ?case by simp
next
  case (Cons a kvs)
  obtain k0 v0 where a: "a = (k0, v0)" by (cases a)
  show ?case
  proof (cases "valueToSql v0")
    case (Inl e0)
    with a show ?thesis by auto
  next
    case (Inr x)
    with Cons.prems a have "(k, v) \<in> set kvs" by auto
    from Cons.IH [OF this Cons.prems(2), of "object_set acc (argName k0) x"] obtain e' where
      "\<exists>v'\<in>snd ` set kvs. valueToSql v' = Inl e'"
      "named_valueToSql kvs (object_set acc (argName k0) x) = Inl e'" by blast
    with Inr a show ?thesis by auto
  qed
qed

lemma executeStmt_encoding_failure:
  "statement_args stmt = Inl e \<Longrightarrow> executeStmt eng db stmt intMode = (Inl e, db)"
  by (simp add: executeStmt_def)

text \<open>
  Claim C4. \<open>valueToSql\<close> follows the table of the specification: a finite number is
  passed on as a number and a non-finite one raises the range error; a bigint outside
  the signed 64-bit range raises the range error and one inside is passed on exactly;
  true becomes the integer 1 and false 0; a timestamp becomes its milliseconds since the
  epoch; \<^verbatim>\<open>undefined\<close> raises the type error; an \<^verbatim>\<open>ArrayBuffer\<close> becomes a blob of the same
  bytes; null, strings, blobs and symbols are passed on unchanged. When the encoding of an
  argument fails, positional or named, \<open>executeStmt\<close> fails with the error of the first
  argument that fails and leaves the handle as it was: no engine call has been made.
\<close>

theorem valueToSql_table:
  "valueToSql (JSNumber (NumFinite x)) = Inr (JSNumber (NumFinite x))
   \<and> valueToSql (JSNumber NumPosInfinity) =
       Inl (RangeError ''Only finite numbers (not Infinity or NaN) can be passed as arguments'')
   \<and> valueToSql (JSNumber NumNegInfinity) =
       Inl (RangeError ''Only finite numbers (not Infinity or NaN) can be passed as arguments'')
   \<and> valueToSql (JSNumber NumNaN) =
       Inl (RangeError ''Only finite numbers (not Infinity or NaN) can be passed as arguments'')
   \<and> valueToSql (JSBigInt i) =
       (if - 9223372036854775808 \<le> i \<and> i \<le> 9223372036854775807 then Inr (JSBigInt i)
        else Inl (RangeError
          ''bigint is too large to be represented as a 64-bit integer and passed as argument''))
   \<and> valueToSql (JSBoolean True) = Inr (JSBigInt 1)
   \<and> valueToSql (JSBoolean False) = Inr (JSBigInt 0)
   \<and> valueToSql (JSDate (NumFinite (of_int ms))) = Inr (JSNumber (NumFinite (of_int ms)))
   \<and> valueToSql JSUndefined =
       Inl (TypeError ''undefined cannot be passed as argument to the database'')
   \<and> valueToSql (JSArrayBuffer b) = Inr (JSBuffer b)
   \<and> valueToSql JSNull = Inr JSNull
   \<and> valueToSql (JSString s) = Inr (JSString s)
   \<and> valueToSql (JSBuffer b) = Inr (JSBuffer b)
   \<and> valueToSql (JSSymbol d) = Inr (JSSymbol d)
   \<and> (v \<in> set vs \<and> valueToSql v = Inl e \<longrightarrow>
        (\<exists>e'. (\<exists>v'\<in>set vs. valueToSql v' = Inl e')
           \<and> executeStmt eng db (StmtObject sql (ArgsArray vs)) intMode = (Inl e', db)))
   \<and> ((k, v) \<in> set kvs \<and> valueToSql v = Inl e \<longrightarrow>
        (\<exists>e'. (\<exists>v'\<in>snd ` set kvs. valueToSql v' = Inl e')
           \<and> executeStmt eng db (StmtObject sql (ArgsRecord kvs)) intMode = (Inl e', db)))"
proof -
  have bigint: "valueToSql (JSBigInt i) =
       (if - 9223372036854775808 \<le> i \<and> i \<le> 9223372036854775807 then Inr (JSBigInt i)
        else Inl (RangeError
          ''bigint is too large to be represented as a 64-bit integer and passed as argument''))"
    by (auto simp add: valueToSql_def minInteger_def maxInteger_def)
  have positional: "\<exists>e'. (\<exists>v'\<in>set vs. valueToSql v' = Inl e')
           \<and> executeStmt eng db (StmtObject sql (ArgsArray vs)) intMode = (Inl e', db)"
    if "v \<in> set vs" "valueToSql v = Inl e"
  proof -
    from map_valueToSql_fails [OF that] obtain e' where
      e': "\<exists>v'\<in>set vs. valueToSql v' = Inl e'" "map_valueToSql vs = Inl e'" by blast
    then have "statement_args (StmtObject sql (ArgsArray vs)) = Inl e'"
      by (simp add: statement_args_def)
    from executeStmt_encoding_failure [OF this] e'(1) show ?thesis by blast
  qed
  have named: "\<exists>e'. (\<exists>v'\<in>snd ` set kvs. valueToSql v' = Inl e')
           \<and> executeStmt eng db (StmtObject sql (ArgsRecord kvs)) intMode = (Inl e', db)"
    if "(k, v) \<in> set kvs" "valueToSql v = Inl e"
  proof -
    from named_valueToSql_fails [OF that, of "ArgsObject [] ObjectPrototype"] obtain e' where
      e': "\<exists>v'\<in>snd ` set kvs. valueToSql v' = Inl e'"
        "named_valueToSql kvs (ArgsObject [] ObjectPrototype) = Inl e'"
      by blast
    then have "statement_args (StmtObject sql (ArgsRecord kvs)) = Inl e'"
      by (simp add: statement_args_def)
    from executeStmt_encoding_failure [OF this] e'(1) show ?thesis by blast
  qed
  have simple: "valueToSql (JSNumber (NumFinite x)) = Inr (JSNumber (NumFinite x))"
    "valueToSql (JSNumber NumPosInfinity) =
       Inl (RangeError ''Only finite numbers (not Infinity or NaN) can be passed as arguments'')"
    "valueToSql (JSNumber NumNegInfinity) =
       Inl (RangeError ''Only finite numbers (not Infinity or NaN) can be passed as arguments'')"
    "valueToSql (JSNumber NumNaN) =
       Inl (RangeError ''Only finite numbers (not Infinity or NaN) can be passed as arguments'')"
    "valueToSql (JSBoolean True) = Inr (JSBigInt 1)"
    "valueToSql (JSBoolean False) = Inr (JSBigInt 0)"
    "valueToSql (JSDate (NumFinite (of_int ms))) = Inr (JSNumber (NumFinite (of_int ms)))"
    "valueToSql JSUndefined =
       Inl (TypeError ''undefined cannot be passed as argument to the database'')"
    "valueToSql (JSArrayBuffer b) = Inr (JSBuffer b)"
    "valueToSql JSNull = Inr JSNull"
    "valueToSql (JSString s) = Inr (JSString s)"
    "valueToSql (JSBuffer b) = Inr (JSBuffer b)"
    "valueToSql (JSSymbol d) = Inr (JSSymbol d)"
    by (simp_all add: valueToSql_def Number_isFinite_def)
  from positional named show ?thesis
    unfolding simple bigint by blast
qed

text \<open>
  A number, a bigint one past the 64-bit range, a timestamp, and two statements whose
  second or only argument is \<^verbatim>\<open>undefined\<close>: the trace of the handle stays empty.
\<close>

theorem valueToSql_table_witness:
  "valueToSql (JSNumber (NumFinite 3)) = Inr (JSNumber (NumFinite 3))
   \<and> valueToSql (JSBigInt 9223372036854775808) =
       Inl (RangeError
          ''bigint is too large to be represented as a 64-bit integer and passed as argument'')
   \<and> valueToSql (JSDate (NumFinite 1700000000000)) = Inr (JSNumber (NumFinite 1700000000000))
   \<and> executeStmt stub_engine (stub_db True False False)
        (StmtObject ''SELECT ?, ?'' (ArgsArray [JSBigInt 1, JSUndefined])) IntModeNumber =
       (Inl (TypeError ''undefined cannot be passed as argument to the database''),
        stub_db True False False)
   \<and> executeStmt stub_engine (stub_db True False False)
        (StmtObject ''SELECT ?, ?'' (ArgsRecord [('':a'', JSUndefined)])) IntModeNumber =
       (Inl (TypeError ''undefined cannot be passed as argument to the database''),
        stub_db True False False)"
  using valueToSql_table [where x = 3 and i = 9223372036854775808 and ms = 1700000000000
      and v = JSUndefined and vs = "[JSBigInt 1, JSUndefined]"
      and e = "TypeError ''undefined cannot be passed as argument to the database''"
      and eng = stub_engine and db = "stub_db True False False" and sql = "''SELECT ?, ?''"
      and intMode = IntModeNumber and k = "'':a''" and kvs = "[('':a'', JSUndefined)]"]
  by (simp add: executeStmt_def statement_args_def valueToSql_def Number_isFinite_def
      minInteger_def maxInteger_def)

subsection \<open>Named arguments\<close>

lemma named_valueToSql_spec:
  "named_valueToSql kvs acc = spec_bind_named (map (\<lambda>(k, v). (argName k, v)) kvs) acc"
proof (induction kvs arbitrary: acc)
  case Nil
  show ?case by simp
next
  case (Cons a kvs)
  obtain k v where a: "a = (k, v)" by (cases a)
  show ?case
  proof (cases "valueToSql v")
    case (Inl e)
    with a show ?thesis by simp
  next
    case (Inr x)
    with a Cons.IH [of "object_set acc (argName k) x"] show ?thesis by simp
  qed
qed

text \<open>
  Claim C9. One leading \<open>@\<close>, \<open>$\<close> or \<open>:\<close> is stripped from an argument name, and no
  more than one, whatever follows it; a name that starts with none of the three is
  left as it is. The loop of the executor does this to each name of the mapping: it
  binds what the specification's binding by name binds for the mapping with the
  stripped names. So for a name that has no sigil of its own and is not \<^verbatim>\<open>__proto__\<close>
  (such as "id") and every value \<open>v\<close>, the mapping with the sigil and the mapping
  without it give the same encoded arguments, an object whose one property is the bare
  name with the encoded value, and the same execution.
\<close>

theorem named_sigil_binding:
  "(c = CHR ''@'' \<or> c = CHR ''$'' \<or> c = CHR '':'' \<longrightarrow> argName (c # rest) = rest)
   \<and> (c \<noteq> CHR ''@'' \<and> c \<noteq> CHR ''$'' \<and> c \<noteq> CHR '':'' \<longrightarrow> argName (c # rest) = c # rest)
   \<and> argName [] = []
   \<and> named_valueToSql kvs acc = spec_bind_named (map (\<lambda>(k, v). (argName k, v)) kvs) acc
   \<and> statement_args (StmtObject sql (ArgsRecord kvs)) =
       (case spec_bind_named (map (\<lambda>(k, v). (argName k, v)) kvs) (ArgsObject [] ObjectPrototype) of
          Inl e \<Rightarrow> Inl e
        | Inr args \<Rightarrow> Inr (sql, BoundObject args))
   \<and> ((s = CHR ''@'' \<or> s = CHR ''$'' \<or> s = CHR '':'') \<and> argName name = name
        \<and> name \<noteq> ''__proto__'' \<longrightarrow>
        statement_args (StmtObject sql (ArgsRecord [(s # name, v)])) =
          statement_args (StmtObject sql (ArgsRecord [(name, v)]))
        \<and> executeStmt eng db (StmtObject sql (ArgsRecord [(s # name, v)])) intMode =
          executeStmt eng db (StmtObject sql (ArgsRecord [(name, v)])) intMode
        \<and> (valueToSql v = Inr x \<longrightarrow>
            statement_args (StmtObject sql (ArgsRecord [(name, v)])) =
              Inr (sql, BoundObject (ArgsObject [(name, x)] ObjectPrototype))))"
proof -
  have strip: "argName (c # rest) = rest"
    if "c = CHR ''@'' \<or> c = CHR ''$'' \<or> c = CHR '':''" for c rest
    using that by (auto simp: argName_def)
  have keep: "argName (c # rest) = c # rest"
    if "c \<noteq> CHR ''@'' \<and> c \<noteq> CHR ''$'' \<and> c \<noteq> CHR '':''"
    using that by (simp add: argName_def)
  have empty: "argName [] = []"
    by (simp add: argName_def)
  have each: "statement_args (StmtObject sql (ArgsRecord kvs)) =
       (case spec_bind_named (map (\<lambda>(k, v). (argName k, v)) kvs) (ArgsObject [] ObjectPrototype) of
          Inl e \<Rightarrow> Inl e
        | Inr args \<Rightarrow> Inr (sql, BoundObject args))"
    by (simp add: statement_args_def named_valueToSql_spec)
  have one: "statement_args (StmtObject sql (ArgsRecord [(s # name, v)])) =
          statement_args (StmtObject sql (ArgsRecord [(name, v)]))
        \<and> executeStmt eng db (StmtObject sql (ArgsRecord [(s # name, v)])) intMode =
          executeStmt eng db (StmtObject sql (ArgsRecord [(name, v)])) intMode
        \<and> (valueToSql v = Inr x \<longrightarrow>
            statement_args (StmtObject sql (ArgsRecord [(name, v)])) =
              Inr (sql, BoundObject (ArgsObject [(name, x)] ObjectPrototype)))"
    if h: "(s = CHR ''@'' \<or> s = CHR ''$'' \<or> s = CHR '':'') \<and> argName name = name
        \<and> name \<noteq> ''__proto__''"
  proof -
    from h strip [of s name] have same:
      "statement_args (StmtObject sql (ArgsRecord [(s # name, v)])) =
         statement_args (StmtObject sql (ArgsRecord [(name, v)]))"
      by (simp add: statement_args_def split: sum.splits)
    then have "executeStmt eng db (StmtObject sql (ArgsRecord [(s # name, v)])) intMode =
          executeStmt eng db (StmtObject sql (ArgsRecord [(name, v)])) intMode"
      by (simp add: executeStmt_def)
    with same h show ?thesis
      by (simp add: statement_args_def object_set_def)
  qed
  from strip [of c rest] keep empty each one named_valueToSql_spec [of kvs acc]
  show ?thesis by blast
qed

text \<open>
  The mappings with "@id" and with "id" for the value 5; "@:id", of which only the
  first sigil goes; and a mapping of two names, each stripped.
\<close>

theorem named_sigil_binding_witness:
  "statement_args (StmtObject ''SELECT @id'' (ArgsRecord [(''@id'', JSBigInt 5)])) =
     Inr (''SELECT @id'', BoundObject (ArgsObject [(''id'', JSBigInt 5)] ObjectPrototype))
   \<and> statement_args (StmtObject ''SELECT @id'' (ArgsRecord [(''id'', JSBigInt 5)])) =
     Inr (''SELECT @id'', BoundObject (ArgsObject [(''id'', JSBigInt 5)] ObjectPrototype))
   \<and> argName ''@:id'' = '':id''
   \<and> statement_args (StmtObject ''SELECT @id''
        (ArgsRecord [(''@a'', JSBigInt 1), (''$b'', JSBoolean True)])) =
     Inr (''SELECT @id'',
          BoundObject (ArgsObject [(''a'', JSBigInt 1), (''b'', JSBigInt 1)] ObjectPrototype))"
proof -
  have h: "(CHR ''@'' = CHR ''@'' \<or> CHR ''@'' = CHR ''$'' \<or> CHR ''@'' = CHR '':'')
      \<and> argName ''id'' = ''id'' \<and> ''id'' \<noteq> ''__proto__''"
    by (simp add: argName_def)
  have enc: "valueToSql (JSBigInt 5) = Inr (JSBigInt 5)"
    by (simp add: valueToSql_def minInteger_def maxInteger_def)
  have sigil: "CHR ''@'' = CHR ''@'' \<or> CHR ''@'' = CHR ''$'' \<or> CHR ''@'' = CHR '':''"
    by simp
  from named_sigil_binding [where s = "CHR ''@''" and name = "''id''" and v = "JSBigInt 5"
      and x = "JSBigInt 5" and sql = "''SELECT @id''" and c = "CHR ''@''" and rest = "'':id''"
      and kvs = "[(''@id'', JSBigInt 5)]" and eng = stub_engine
      and db = "stub_db True False False" and intMode = IntModeNumber] h enc sigil
  have one: "statement_args (StmtObject ''SELECT @id'' (ArgsRecord [(''@id'', JSBigInt 5)])) =
       Inr (''SELECT @id'', BoundObject (ArgsObject [(''id'', JSBigInt 5)] ObjectPrototype))
     \<and> statement_args (StmtObject ''SELECT @id'' (ArgsRecord [(''id'', JSBigInt 5)])) =
       Inr (''SELECT @id'', BoundObject (ArgsObject [(''id'', JSBigInt 5)] ObjectPrototype))
     \<and> argName ''@:id'' = '':id''"
    by (simp add: argName_def object_set_def)
  from named_sigil_binding [where sql = "''SELECT @id''"
      and kvs = "[(''@a'', JSBigInt 1), (''$b'', JSBoolean True)]",
      THEN conjunct2, THEN conjunct2, THEN conjunct2, THEN conjunct2, THEN conjunct1]
  have "statement_args (StmtObject ''SELECT @id''
        (ArgsRecord [(''@a'', JSBigInt 1), (''$b'', JSBoolean True)])) =
     Inr (''SELECT @id'',
          BoundObject (ArgsObject [(''a'', JSBigInt 1), (''b'', JSBigInt 1)] ObjectPrototype))"
    by (simp add: argName_def valueToSql_def minInteger_def maxInteger_def object_set_def)
  with one show ?thesis by simp
qed

subsection \<open>The shape of the result\<close>

text \<open>No call of the executor changes the \<^verbatim>\<open>open\<close> flag of the handle.\<close>

lemma engine_call_db_open:
  "engine_call c f db = (r, db') \<Longrightarrow> db_open db' = db_open db"
  by (auto simp: engine_call_def split: prod.splits)

lemma executeStmt_probe_db_open:
  "executeStmt_probe eng db sql = (r, db') \<Longrightarrow> db_open db' = db_open db"
  unfolding executeStmt_probe_def
  by (auto split: prod.splits sum.splits dest!: engine_call_db_open)

lemma executeStmt_rows_db_open:
  "executeStmt_rows eng db sql args intMode = (r, db') \<Longrightarrow> db_open db' = db_open db"
  unfolding executeStmt_rows_def
  by (auto split: prod.splits sum.splits dest!: engine_call_db_open)

lemma executeStmt_run_db_open:
  "executeStmt_run eng db sql args = (r, db') \<Longrightarrow> db_open db' = db_open db"
  unfolding executeStmt_run_def
  by (auto split: prod.splits sum.splits dest!: engine_call_db_open)

lemma executeStmt_try_db_open:
  "executeStmt_try eng db sql args intMode = (r, db') \<Longrightarrow> db_open db' = db_open db"
  unfolding executeStmt_try_def
  by (auto split: prod.splits sum.splits if_splits
      dest: executeStmt_probe_db_open executeStmt_rows_db_open executeStmt_run_db_open)

lemma executeStmt_db_open:
  "executeStmt eng db stmt intMode = (r, db') \<Longrightarrow> db_open db' = db_open db"
  unfolding executeStmt_def
  by (auto split: prod.splits sum.splits dest: executeStmt_try_db_open)

lemma executeStmt_rows_result:
  "executeStmt_rows eng db sql args intMode = (Inr rs, db') \<Longrightarrow>
     rowsAffected rs = 0 \<and> lastInsertRowid rs = None"
  unfolding executeStmt_rows_def
  by (auto split: prod.splits sum.splits)

lemma executeStmt_run_result:
  "executeStmt_run eng db sql args = (Inr rs, db') \<Longrightarrow>
     columns rs = [] \<and> rows rs = [] \<and>
     (\<exists>info rid. eng_run eng sql args (db_state db) = (Inr info, db_state db')
        \<and> BigInt_of_rowid (info_lastInsertRowid info) = Inr rid
        \<and> rowsAffected rs = changes info \<and> lastInsertRowid rs = Some rid)"
  unfolding executeStmt_run_def engine_call_def
  by (auto split: prod.splits sum.splits)

text \<open>
  Claim C5. Whether a statement produces rows is what the probe of \<open>executeStmt\<close>
  finds (\<^verbatim>\<open>returnsData\<close>). When it does, the result set returned has \<open>rowsAffected = 0\<close>
  and no last-inserted-row identifier. When it does not, the result set has no columns
  and no rows, \<open>rowsAffected\<close> is the \<^verbatim>\<open>changes\<close> count the engine's \<^verbatim>\<open>run\<close> reported and the
  identifier is the \<^verbatim>\<open>lastInsertRowid\<close> it reported, as an integer.
\<close>

theorem executeStmt_result_shape:
  assumes "statement_args stmt = Inr (sql, args)"
    and "executeStmt_probe eng db sql = (Inr returnsData, db1)"
    and "executeStmt eng db stmt intMode = (Inr rs, db')"
  shows "(returnsData \<longrightarrow> rowsAffected rs = 0 \<and> lastInsertRowid rs = None)
    \<and> (\<not> returnsData \<longrightarrow> columns rs = [] \<and> rows rs = [] \<and>
         (\<exists>info rid. eng_run eng sql args (db_state db1) = (Inr info, db_state db')
            \<and> BigInt_of_rowid (info_lastInsertRowid info) = Inr rid
            \<and> rowsAffected rs = changes info \<and> lastInsertRowid rs = Some rid))"
proof (cases returnsData)
  case True
  with assms have "executeStmt_rows eng db1 sql args intMode = (Inr rs, db')"
    by (auto simp: executeStmt_def executeStmt_try_def split: prod.splits sum.splits)
  from executeStmt_rows_result [OF this] True show ?thesis by simp
next
  case False
  with assms have "executeStmt_run eng db1 sql args = (Inr rs, db')"
    by (auto simp: executeStmt_def executeStmt_try_def split: prod.splits sum.splits)
  from executeStmt_run_result [OF this] False show ?thesis by simp
qed

text \<open>A SELECT and an INSERT on the example engine.\<close>

theorem executeStmt_result_shape_witness:
  "executeStmt stub_engine (stub_db True False False) (StmtString ''SELECT 1'') IntModeBigint =
     (Inr \<lparr>columns = [''x''],
           rows = [[(''length'', JSNumber (NumFinite 1), False), (''0'', JSBigInt 1, False),
                    (''x'', JSBigInt 1, True)]],
           rowsAffected = 0, lastInsertRowid = None\<rparr>,
      (stub_db True False False)\<lparr>db_calls :=
        [CallPrepare ''SELECT 1'', CallSafeIntegers ''SELECT 1'', CallRaw ''SELECT 1'',
         CallColumns ''SELECT 1'', CallAll ''SELECT 1'' (BoundArray [])]\<rparr>)
   \<and> executeStmt stub_engine (stub_db True False False) (StmtString ''INSERT'') IntModeBigint =
     (Inr \<lparr>columns = [], rows = [], rowsAffected = 1, lastInsertRowid = Some 7\<rparr>,
      (stub_db True False False)\<lparr>db_calls :=
        [CallPrepare ''INSERT'', CallSafeIntegers ''INSERT'', CallRaw ''INSERT'',
         CallRun ''INSERT'' (BoundArray [])]\<rparr>)
   \<and> eng_run stub_engine ''INSERT'' (BoundArray [])
         \<lparr>st_inTransaction = False, st_locked = False\<rparr> =
       (Inr \<lparr>changes = 1, info_lastInsertRowid = RowidBigInt 7\<rparr>,
        \<lparr>st_inTransaction = False, st_locked = False\<rparr>)"
proof -
  let ?db = "stub_db True False False"
  let ?sel = "\<lparr>columns = [''x''],
           rows = [[(''length'', JSNumber (NumFinite 1), False), (''0'', JSBigInt 1, False),
                    (''x'', JSBigInt 1, True)]],
           rowsAffected = 0, lastInsertRowid = None\<rparr>"
  let ?ins = "\<lparr>columns = [], rows = [], rowsAffected = 1, lastInsertRowid = Some 7\<rparr>"
  have s1: "statement_args (StmtString ''SELECT 1'') = Inr (''SELECT 1'', BoundArray [])"
    by (simp add: statement_args_def)
  have s2: "executeStmt_probe stub_engine ?db ''SELECT 1'' =
      (Inr True, ?db\<lparr>db_calls :=
        [CallPrepare ''SELECT 1'', CallSafeIntegers ''SELECT 1'', CallRaw ''SELECT 1'']\<rparr>)"
    by (simp add: executeStmt_probe_def engine_call_def stub_engine_def stub_unbindable_def is_Symbol_def stub_db_def)
  have s3: "executeStmt stub_engine ?db (StmtString ''SELECT 1'') IntModeBigint =
      (Inr ?sel, ?db\<lparr>db_calls :=
        [CallPrepare ''SELECT 1'', CallSafeIntegers ''SELECT 1'', CallRaw ''SELECT 1'',
         CallColumns ''SELECT 1'', CallAll ''SELECT 1'' (BoundArray [])]\<rparr>)"
    by (simp add: executeStmt_def executeStmt_try_def executeStmt_probe_def
        executeStmt_rows_def statement_args_def engine_call_def stub_engine_def stub_unbindable_def is_Symbol_def stub_db_def
        rowFromSql_def defineProperty_def hasOwn_def valueFromSql_def digits_of_nat.simps
        digit_char_def)
  have i1: "statement_args (StmtString ''INSERT'') = Inr (''INSERT'', BoundArray [])"
    by (simp add: statement_args_def)
  have i2: "executeStmt_probe stub_engine ?db ''INSERT'' =
      (Inr False, ?db\<lparr>db_calls :=
        [CallPrepare ''INSERT'', CallSafeIntegers ''INSERT'', CallRaw ''INSERT'']\<rparr>)"
    by (simp add: executeStmt_probe_def engine_call_def stub_engine_def stub_unbindable_def is_Symbol_def stub_db_def)
  have i3: "executeStmt stub_engine ?db (StmtString ''INSERT'') IntModeBigint =
      (Inr ?ins, ?db\<lparr>db_calls :=
        [CallPrepare ''INSERT'', CallSafeIntegers ''INSERT'', CallRaw ''INSERT'',
         CallRun ''INSERT'' (BoundArray [])]\<rparr>)"
    by (simp add: executeStmt_def executeStmt_try_def executeStmt_probe_def
        executeStmt_run_def statement_args_def engine_call_def stub_engine_def stub_unbindable_def is_Symbol_def stub_db_def
        BigInt_of_rowid_def)
  from executeStmt_result_shape [OF s1 s2 s3] executeStmt_result_shape [OF i1 i2 i3] s3 i3
  show ?thesis
    by (simp add: stub_engine_def stub_unbindable_def is_Symbol_def stub_db_def)
qed

subsection \<open>Errors of the engine\<close>












section \<open>Properties of the client\<close>

text \<open>
  Claim C6. On a client that has been closed, \<open>execute\<close>, \<open>batch\<close>, \<open>transaction\<close> and
  \<open>executeMultiple\<close> each fail with the error of code CLIENT_CLOSED and return the world
  as it was: nothing is added to the trace, no handle is opened. No operation of the
  model gives a closed client back its open state, and closing again changes nothing,
  so this holds for every operation after \<open>close\<close>.
\<close>

theorem closed_client_rejects:
  "client_execute eng (client_close c) stmt w =
     (Inl (LibsqlError ''The client is closed'' ''CLIENT_CLOSED'' None), w)
   \<and> client_batch transactionModeToBegin eng (client_close c) stmts mode w =
     (Inl (LibsqlError ''The client is closed'' ''CLIENT_CLOSED'' None), w)
   \<and> client_transaction transactionModeToBegin eng (client_close c) mode w =
     (Inl (LibsqlError ''The client is closed'' ''CLIENT_CLOSED'' None), w)
   \<and> client_executeMultiple eng (client_close c) sql w =
     (Inl (LibsqlError ''The client is closed'' ''CLIENT_CLOSED'' None), w)
   \<and> client_close (client_close c) = client_close c"
  by (simp add: client_execute_def client_batch_def client_transaction_def
      client_executeMultiple_def client_checkNotClosed_def client_close_def)

text \<open>\<open>execute\<close> on the closed example client: the trace stays empty.\<close>

theorem closed_client_rejects_witness:
  "client_execute stub_engine (client_close stub_client) (StmtString ''SELECT 1'')
      \<lparr>w_state = \<lparr>st_inTransaction = False, st_locked = False\<rparr>, w_calls = []\<rparr> =
     (Inl (LibsqlError ''The client is closed'' ''CLIENT_CLOSED'' None),
      \<lparr>w_state = \<lparr>st_inTransaction = False, st_locked = False\<rparr>, w_calls = []\<rparr>)"
  using closed_client_rejects [where eng = stub_engine and c = stub_client
      and stmt = "StmtString ''SELECT 1''"
      and w = "\<lparr>w_state = \<lparr>st_inTransaction = False, st_locked = False\<rparr>, w_calls = []\<rparr>"]
  by simp

section \<open>Properties of the transaction\<close>

subsection \<open>The guard\<close>

lemma tx_batch_append:
  "tx_batch eng tx (pre @ rest) =
     (case tx_batch eng tx pre of
        (Inl e, tx1) \<Rightarrow> (Inl e, tx1)
      | (Inr rss, tx1) \<Rightarrow>
          (case tx_batch eng tx1 rest of
             (Inl e, tx2) \<Rightarrow> (Inl e, tx2)
           | (Inr rss2, tx2) \<Rightarrow> (Inr (rss @ rss2), tx2)))"
proof (induction pre arbitrary: tx)
  case Nil
  show ?case by (simp split: prod.splits sum.splits)
next
  case (Cons a pre)
  show ?case
    by (simp add: Cons.IH split: prod.splits sum.splits)
qed

text \<open>
  Claim C3, as stated, says that \<open>batch\<close>, like \<open>execute\<close>, \<open>executeMultiple\<close> and
  \<open>commit\<close>, first makes the check and fails when it fails. \<open>batch\<close> makes the check
  in the callback of \<^verbatim>\<open>stmts.map\<close>, once before each statement; with no statement the
  check is never made, and on a released handle the call returns the empty list.
\<close>

theorem empty_batch_on_closed_transaction:
  "tx_closed (stub_tx False False False)
   \<and> tx_batch stub_engine (stub_tx False False False) [] = (Inr [], stub_tx False False False)"
  by (simp add: tx_closed_def stub_tx_def stub_db_def)

text \<open>
  Claim C3, amended. When the handle is released or the engine reports no active
  transaction, \<open>execute\<close>, \<open>executeMultiple\<close>, \<open>commit\<close> and a \<open>batch\<close> of at least one
  statement fail with the error of code TRANSACTION_CLOSED and leave the transaction,
  its handle and the trace of engine calls as they were. \<open>batch\<close> makes the check
  before each statement: when the statements before some statement of the batch have
  run and left the transaction in such a state, the batch fails with that error there,
  with the transaction as those statements left it.
\<close>

theorem transaction_guard:
  assumes "\<not> db_open (tx_database tx) \<or> \<not> db_inTransaction eng (tx_database tx)"
  shows "tx_execute eng tx stmt =
      (Inl (LibsqlError ''The transaction is closed'' ''TRANSACTION_CLOSED'' None), tx)
    \<and> tx_executeMultiple eng tx sql =
      (Inl (LibsqlError ''The transaction is closed'' ''TRANSACTION_CLOSED'' None), tx)
    \<and> tx_commit eng tx =
      (Inl (LibsqlError ''The transaction is closed'' ''TRANSACTION_CLOSED'' None), tx)
    \<and> tx_batch eng tx (stmt # stmts) =
      (Inl (LibsqlError ''The transaction is closed'' ''TRANSACTION_CLOSED'' None), tx)
    \<and> (tx_batch eng tx0 pre = (Inr rss, tx) \<longrightarrow>
        tx_batch eng tx0 (pre @ stmt # stmts) =
          (Inl (LibsqlError ''The transaction is closed'' ''TRANSACTION_CLOSED'' None), tx))"
proof -
  from assms have guard: "tx_checkNotClosed eng tx =
      Inl (LibsqlError ''The transaction is closed'' ''TRANSACTION_CLOSED'' None)"
    by (auto simp: tx_checkNotClosed_def)
  then have first: "tx_batch eng tx (stmt # stmts) =
      (Inl (LibsqlError ''The transaction is closed'' ''TRANSACTION_CLOSED'' None), tx)"
    by simp
  have later: "tx_batch eng tx0 (pre @ stmt # stmts) =
      (Inl (LibsqlError ''The transaction is closed'' ''TRANSACTION_CLOSED'' None), tx)"
    if "tx_batch eng tx0 pre = (Inr rss, tx)"
    using that first by (simp add: tx_batch_append)
  from guard first later show ?thesis
    by (simp add: tx_execute_def tx_executeMultiple_def tx_commit_def)
qed

text \<open>
  A handle that is open while the engine is in no transaction; and a batch whose first
  statement, ROLLBACK, ends the transaction, so that the second is not run.
\<close>

theorem transaction_guard_witness:
  "tx_execute stub_engine (stub_tx True False False) (StmtString ''SELECT 1'') =
      (Inl (LibsqlError ''The transaction is closed'' ''TRANSACTION_CLOSED'' None),
       stub_tx True False False)
   \<and> tx_commit stub_engine (stub_tx True False False) =
      (Inl (LibsqlError ''The transaction is closed'' ''TRANSACTION_CLOSED'' None),
       stub_tx True False False)
   \<and> tx_batch stub_engine (stub_tx True False False) [StmtString ''SELECT 1''] =
      (Inl (LibsqlError ''The transaction is closed'' ''TRANSACTION_CLOSED'' None),
       stub_tx True False False)
   \<and> tx_batch stub_engine (stub_tx True True False)
        [StmtString ''ROLLBACK'', StmtString ''SELECT 1''] =
      (Inl (LibsqlError ''The transaction is closed'' ''TRANSACTION_CLOSED'' None),
       stub_tx True False False\<lparr>tx_database := (stub_db True False False)\<lparr>db_calls :=
         [CallPrepare ''ROLLBACK'', CallSafeIntegers ''ROLLBACK'', CallRaw ''ROLLBACK'',
          CallRun ''ROLLBACK'' (BoundArray [])]\<rparr>\<rparr>)"
proof -
  let ?closed = "LibsqlError ''The transaction is closed'' ''TRANSACTION_CLOSED'' None"
  let ?tx1 = "stub_tx True False False\<lparr>tx_database := (stub_db True False False)\<lparr>db_calls :=
         [CallPrepare ''ROLLBACK'', CallSafeIntegers ''ROLLBACK'', CallRaw ''ROLLBACK'',
          CallRun ''ROLLBACK'' (BoundArray [])]\<rparr>\<rparr>"
  have g0: "\<not> db_open (tx_database (stub_tx True False False))
      \<or> \<not> db_inTransaction stub_engine (tx_database (stub_tx True False False))"
    by (simp add: stub_tx_def stub_db_def stub_engine_def db_inTransaction_def)
  have g1: "\<not> db_open (tx_database ?tx1) \<or> \<not> db_inTransaction stub_engine (tx_database ?tx1)"
    by (simp add: stub_tx_def stub_db_def stub_engine_def db_inTransaction_def)
  have pre: "tx_batch stub_engine (stub_tx True True False) [StmtString ''ROLLBACK''] =
      (Inr [\<lparr>columns = [], rows = [], rowsAffected = 0, lastInsertRowid = Some 0\<rparr>], ?tx1)"
    by (simp add: tx_checkNotClosed_def db_inTransaction_def stub_tx_def stub_db_def
        stub_engine_def stub_unbindable_def is_Symbol_def executeStmt_def executeStmt_try_def
        executeStmt_probe_def executeStmt_run_def statement_args_def engine_call_def
        BigInt_of_rowid_def)
  from transaction_guard [OF g0, where stmt = "StmtString ''SELECT 1''" and stmts = "[]"]
  have entry: "tx_execute stub_engine (stub_tx True False False) (StmtString ''SELECT 1'') =
        (Inl ?closed, stub_tx True False False)
     \<and> tx_commit stub_engine (stub_tx True False False) = (Inl ?closed, stub_tx True False False)
     \<and> tx_batch stub_engine (stub_tx True False False) [StmtString ''SELECT 1''] =
        (Inl ?closed, stub_tx True False False)"
    by simp
  from transaction_guard [OF g1, where stmt = "StmtString ''SELECT 1''" and stmts = "[]"
      and ?tx0.0 = "stub_tx True True False" and pre = "[StmtString ''ROLLBACK'']"
      and rss = "[\<lparr>columns = [], rows = [], rowsAffected = 0, lastInsertRowid = Some 0\<rparr>]"] pre
  have "tx_batch stub_engine (stub_tx True True False)
        [StmtString ''ROLLBACK'', StmtString ''SELECT 1''] = (Inl ?closed, ?tx1)"
    by simp
  with entry show ?thesis by simp
qed


subsection \<open>Rollback\<close>

lemma db_close_not_open: "\<not> db_open (db_close eng db)"
  by (simp add: db_close_def)

text \<open>
  Claim C8, as stated, says that \<open>rollback\<close> on a handle not yet released issues
  ROLLBACK and releases the handle, so that a second \<open>rollback\<close> is always a no-op.
  \<open>rollback\<close> makes the check of the guard after its test of the \<^verbatim>\<open>open\<close> flag. Once the
  engine has left the transaction while the handle is open (here after the statement
  ROLLBACK was run through \<open>execute\<close>), \<open>rollback\<close> fails with TRANSACTION_CLOSED, issues
  nothing and leaves the handle open; the transaction it returns is the one it was
  given, so every further \<open>rollback\<close> fails in the same way.
\<close>

theorem rollback_after_engine_rollback:
  "tx_execute stub_engine (stub_tx True True False) (StmtString ''ROLLBACK'') =
     (Inr \<lparr>columns = [], rows = [], rowsAffected = 0, lastInsertRowid = Some 0\<rparr>,
      \<lparr>tx_database = \<lparr>db_open = True,
          db_state = \<lparr>st_inTransaction = False, st_locked = False\<rparr>,
          db_calls = [CallPrepare ''ROLLBACK'', CallSafeIntegers ''ROLLBACK'',
            CallRaw ''ROLLBACK'', CallRun ''ROLLBACK'' (BoundArray [])]\<rparr>,
        tx_intMode = IntModeNumber\<rparr>)
   \<and> tx_rollback stub_engine
       \<lparr>tx_database = \<lparr>db_open = True,
          db_state = \<lparr>st_inTransaction = False, st_locked = False\<rparr>,
          db_calls = [CallPrepare ''ROLLBACK'', CallSafeIntegers ''ROLLBACK'',
            CallRaw ''ROLLBACK'', CallRun ''ROLLBACK'' (BoundArray [])]\<rparr>,
        tx_intMode = IntModeNumber\<rparr> =
     (Inl (LibsqlError ''The transaction is closed'' ''TRANSACTION_CLOSED'' None),
      \<lparr>tx_database = \<lparr>db_open = True,
          db_state = \<lparr>st_inTransaction = False, st_locked = False\<rparr>,
          db_calls = [CallPrepare ''ROLLBACK'', CallSafeIntegers ''ROLLBACK'',
            CallRaw ''ROLLBACK'', CallRun ''ROLLBACK'' (BoundArray [])]\<rparr>,
        tx_intMode = IntModeNumber\<rparr>)"
  by (simp add: tx_execute_def tx_rollback_def tx_checkNotClosed_def db_inTransaction_def
      stub_tx_def stub_db_def stub_engine_def stub_unbindable_def is_Symbol_def executeStmt_def executeStmt_try_def
      executeStmt_probe_def executeStmt_run_def statement_args_def engine_call_def
      BigInt_of_rowid_def)

text \<open>
  Claim C8, amended. On a released handle \<open>rollback\<close> is a no-op. On an open handle with
  no active transaction it fails with TRANSACTION_CLOSED and changes nothing. On an open
  handle with an active transaction it issues ROLLBACK: if that fails the error is
  raised and the handle stays open, if it succeeds the handle is released. Whenever a
  \<open>rollback\<close> has succeeded the handle is released, and a second \<open>rollback\<close> is a no-op.
\<close>

theorem rollback_idempotent:
  "(\<not> db_open (tx_database tx) \<longrightarrow> tx_rollback eng tx = (Inr (), tx))
   \<and> (db_open (tx_database tx) \<and> \<not> db_inTransaction eng (tx_database tx) \<longrightarrow>
        tx_rollback eng tx =
          (Inl (LibsqlError ''The transaction is closed'' ''TRANSACTION_CLOSED'' None), tx))
   \<and> (db_open (tx_database tx) \<and> db_inTransaction eng (tx_database tx) \<longrightarrow>
        (case executeStmt eng (tx_database tx) (StmtString ''ROLLBACK'') (tx_intMode tx) of
           (Inl e, db') \<Rightarrow>
             tx_rollback eng tx = (Inl e, tx\<lparr>tx_database := db'\<rparr>) \<and> db_open db'
         | (Inr rs, db') \<Rightarrow>
             tx_rollback eng tx = (Inr (), tx\<lparr>tx_database := db_close eng db'\<rparr>)
             \<and> tx_closed (tx\<lparr>tx_database := db_close eng db'\<rparr>)))
   \<and> (tx_rollback eng tx = (Inr (), tx') \<longrightarrow>
        tx_closed tx' \<and> tx_rollback eng tx' = (Inr (), tx'))"
proof -
  have released: "tx_rollback eng tx = (Inr (), tx)" if "\<not> db_open (tx_database tx)"
    using that by (simp add: tx_rollback_def)
  have inactive: "tx_rollback eng tx =
      (Inl (LibsqlError ''The transaction is closed'' ''TRANSACTION_CLOSED'' None), tx)"
    if "db_open (tx_database tx) \<and> \<not> db_inTransaction eng (tx_database tx)"
    using that by (simp add: tx_rollback_def tx_checkNotClosed_def)
  have active: "case executeStmt eng (tx_database tx) (StmtString ''ROLLBACK'') (tx_intMode tx) of
           (Inl e, db') \<Rightarrow>
             tx_rollback eng tx = (Inl e, tx\<lparr>tx_database := db'\<rparr>) \<and> db_open db'
         | (Inr rs, db') \<Rightarrow>
             tx_rollback eng tx = (Inr (), tx\<lparr>tx_database := db_close eng db'\<rparr>)
             \<and> tx_closed (tx\<lparr>tx_database := db_close eng db'\<rparr>)"
    if a: "db_open (tx_database tx) \<and> db_inTransaction eng (tx_database tx)"
  proof -
    obtain r db' where ex:
      "executeStmt eng (tx_database tx) (StmtString ''ROLLBACK'') (tx_intMode tx) = (r, db')"
      by (cases "executeStmt eng (tx_database tx) (StmtString ''ROLLBACK'') (tx_intMode tx)")
    from executeStmt_db_open [OF ex] a have "db_open db'" by simp
    with a ex show ?thesis
      by (cases r) (simp_all add: tx_rollback_def tx_checkNotClosed_def tx_closed_def
          db_close_not_open)
  qed
  have again: "tx_closed tx' \<and> tx_rollback eng tx' = (Inr (), tx')"
    if ok: "tx_rollback eng tx = (Inr (), tx')"
  proof -
    have "tx_closed tx'"
    proof (cases "db_open (tx_database tx)")
      case False
      with ok show ?thesis
        by (simp add: tx_rollback_def tx_closed_def)
    next
      case True
      with ok show ?thesis
        by (auto simp: tx_rollback_def tx_closed_def db_close_not_open
            split: sum.splits prod.splits)
    qed
    then show ?thesis
      by (simp add: tx_rollback_def tx_closed_def)
  qed
  from released inactive active again show ?thesis by blast
qed

text \<open>Two rollbacks of an active transaction on the example engine.\<close>

theorem rollback_idempotent_witness:
  "tx_rollback stub_engine (stub_tx True True False) =
     (Inr (), \<lparr>tx_database = \<lparr>db_open = False,
          db_state = \<lparr>st_inTransaction = False, st_locked = False\<rparr>,
          db_calls = [CallPrepare ''ROLLBACK'', CallSafeIntegers ''ROLLBACK'',
            CallRaw ''ROLLBACK'', CallRun ''ROLLBACK'' (BoundArray []), CallClose]\<rparr>,
        tx_intMode = IntModeNumber\<rparr>)
   \<and> tx_rollback stub_engine \<lparr>tx_database = \<lparr>db_open = False,
          db_state = \<lparr>st_inTransaction = False, st_locked = False\<rparr>,
          db_calls = [CallPrepare ''ROLLBACK'', CallSafeIntegers ''ROLLBACK'',
            CallRaw ''ROLLBACK'', CallRun ''ROLLBACK'' (BoundArray []), CallClose]\<rparr>,
        tx_intMode = IntModeNumber\<rparr> =
     (Inr (), \<lparr>tx_database = \<lparr>db_open = False,
          db_state = \<lparr>st_inTransaction = False, st_locked = False\<rparr>,
          db_calls = [CallPrepare ''ROLLBACK'', CallSafeIntegers ''ROLLBACK'',
            CallRaw ''ROLLBACK'', CallRun ''ROLLBACK'' (BoundArray []), CallClose]\<rparr>,
        tx_intMode = IntModeNumber\<rparr>)"
proof -
  let ?tx' = "\<lparr>tx_database = \<lparr>db_open = False,
          db_state = \<lparr>st_inTransaction = False, st_locked = False\<rparr>,
          db_calls = [CallPrepare ''ROLLBACK'', CallSafeIntegers ''ROLLBACK'',
            CallRaw ''ROLLBACK'', CallRun ''ROLLBACK'' (BoundArray []), CallClose]\<rparr>,
        tx_intMode = IntModeNumber\<rparr>"
  have first: "tx_rollback stub_engine (stub_tx True True False) = (Inr (), ?tx')"
    by (simp add: tx_rollback_def tx_checkNotClosed_def db_inTransaction_def db_close_def
      stub_tx_def stub_db_def stub_engine_def stub_unbindable_def is_Symbol_def executeStmt_def executeStmt_try_def
      executeStmt_probe_def executeStmt_run_def statement_args_def engine_call_def
      BigInt_of_rowid_def)
  with rollback_idempotent [where eng = stub_engine and tx = "stub_tx True True False"
      and tx' = ?tx']
  show ?thesis by simp
qed

subsection \<open>A commit that fails\<close>

text \<open>
  Claim C10. When the guard of \<open>commit\<close> passes and the COMMIT statement fails, the
  error is raised and the handle is not released: \<open>closed\<close> still answers false. \<open>close\<close>
  then releases the handle; and \<open>rollback\<close> is not cut short by its test of the \<^verbatim>\<open>open\<close>
  flag: when the engine still reports the transaction active and ROLLBACK succeeds, it
  releases the handle as well.
\<close>

theorem failed_commit_keeps_handle:
  assumes "tx_checkNotClosed eng tx = Inr ()"
    and "executeStmt eng (tx_database tx) (StmtString ''COMMIT'') (tx_intMode tx) = (Inl e, db')"
  shows "tx_commit eng tx = (Inl e, tx\<lparr>tx_database := db'\<rparr>)
    \<and> \<not> tx_closed (tx\<lparr>tx_database := db'\<rparr>)
    \<and> tx_closed (tx_close eng (tx\<lparr>tx_database := db'\<rparr>))
    \<and> (db_inTransaction eng db'
        \<and> executeStmt eng db' (StmtString ''ROLLBACK'') (tx_intMode tx) = (Inr rs, db'') \<longrightarrow>
        tx_rollback eng (tx\<lparr>tx_database := db'\<rparr>) =
          (Inr (), tx\<lparr>tx_database := db_close eng db''\<rparr>)
        \<and> tx_closed (tx\<lparr>tx_database := db_close eng db''\<rparr>))"
proof -
  from assms(1) have op: "db_open (tx_database tx)"
    by (auto simp: tx_checkNotClosed_def split: if_splits)
  from executeStmt_db_open [OF assms(2)] op have op': "db_open db'" by simp
  from assms have "tx_commit eng tx = (Inl e, tx\<lparr>tx_database := db'\<rparr>)"
    by (simp add: tx_commit_def)
  with op' show ?thesis
    by (simp add: tx_closed_def tx_close_def db_close_not_open tx_rollback_def
        tx_checkNotClosed_def)
qed

text \<open>A COMMIT on a locked database of the example engine fails with SQLITE_BUSY.\<close>

theorem failed_commit_keeps_handle_witness:
  "tx_commit stub_engine (stub_tx True True True) =
     (Inl (LibsqlError ''database is locked'' ''SQLITE_BUSY''
        (Some (SqliteError ''database is locked'' ''SQLITE_BUSY''))),
      stub_tx True True True\<lparr>tx_database := (stub_db True True True)\<lparr>db_calls :=
        [CallPrepare ''COMMIT'', CallSafeIntegers ''COMMIT'', CallRaw ''COMMIT'',
         CallRun ''COMMIT'' (BoundArray [])]\<rparr>\<rparr>)
   \<and> \<not> tx_closed (stub_tx True True True\<lparr>tx_database := (stub_db True True True)\<lparr>db_calls :=
        [CallPrepare ''COMMIT'', CallSafeIntegers ''COMMIT'', CallRaw ''COMMIT'',
         CallRun ''COMMIT'' (BoundArray [])]\<rparr>\<rparr>)
   \<and> tx_closed (tx_close stub_engine
       (stub_tx True True True\<lparr>tx_database := (stub_db True True True)\<lparr>db_calls :=
        [CallPrepare ''COMMIT'', CallSafeIntegers ''COMMIT'', CallRaw ''COMMIT'',
         CallRun ''COMMIT'' (BoundArray [])]\<rparr>\<rparr>))"
proof -
  have g: "tx_checkNotClosed stub_engine (stub_tx True True True) = Inr ()"
    by (simp add: tx_checkNotClosed_def db_inTransaction_def stub_tx_def stub_db_def
        stub_engine_def stub_unbindable_def is_Symbol_def)
  have c: "executeStmt stub_engine (tx_database (stub_tx True True True)) (StmtString ''COMMIT'')
      (tx_intMode (stub_tx True True True)) =
     (Inl (LibsqlError ''database is locked'' ''SQLITE_BUSY''
        (Some (SqliteError ''database is locked'' ''SQLITE_BUSY''))),
      (stub_db True True True)\<lparr>db_calls :=
        [CallPrepare ''COMMIT'', CallSafeIntegers ''COMMIT'', CallRaw ''COMMIT'',
         CallRun ''COMMIT'' (BoundArray [])]\<rparr>)"
    by (simp add: stub_tx_def stub_db_def stub_engine_def stub_unbindable_def is_Symbol_def executeStmt_def executeStmt_try_def
      executeStmt_probe_def executeStmt_run_def statement_args_def engine_call_def
      mapSqliteError_def)
  from failed_commit_keeps_handle [OF g c] show ?thesis by simp
qed


end
